theory Spec2Isabelle
  imports Main
begin

section \<open>Python strings\<close>

text \<open>
  The script \<^verbatim>\<open>copy_adventureworks_data.py\<close> works on Python \<^verbatim>\<open>str\<close> values. They are
  modelled as \<^typ>\<open>string\<close>, restricted to ASCII text: \<open>lower\<close>, \<open>strip\<close>, \<open>isdigit\<close>
  and \<open>int\<close> below follow what Python does on ASCII characters. A value that is
  \<^verbatim>\<open>None\<close> or a string is a \<^typ>\<open>string option\<close>.
\<close>

datatype py_error = KeyError | ValueError | IndexError

abbreviation QUOTE :: char where "QUOTE \<equiv> CHR 0x27"
abbreviation BACKSLASH :: char where "BACKSLASH \<equiv> CHR 0x5C"
abbreviation TAB :: char where "TAB \<equiv> CHR 0x09"
abbreviation NEWLINE :: char where "NEWLINE \<equiv> CHR 0x0A"

definition lower_char :: "char \<Rightarrow> char" where
  "lower_char c =
     (case map_of (zip ''ABCDEFGHIJKLMNOPQRSTUVWXYZ'' ''abcdefghijklmnopqrstuvwxyz'') c of
        Some l \<Rightarrow> l | None \<Rightarrow> c)"

definition lower :: "string \<Rightarrow> string" where
  "lower s = map lower_char s"

text \<open>The ASCII characters for which \<^verbatim>\<open>str.isspace\<close> holds.\<close>

definition isspace :: "char \<Rightarrow> bool" where
  "isspace c \<longleftrightarrow> c \<in> set [CHR 0x20, CHR 0x09, CHR 0x0A, CHR 0x0B, CHR 0x0C, CHR 0x0D,
                            CHR 0x1C, CHR 0x1D, CHR 0x1E, CHR 0x1F]"

definition lstrip :: "string \<Rightarrow> string" where
  "lstrip s = dropWhile isspace s"

definition rstrip :: "string \<Rightarrow> string" where
  "rstrip s = rev (dropWhile isspace (rev s))"

definition strip :: "string \<Rightarrow> string" where
  "strip s = rstrip (lstrip s)"

fun startswith :: "string \<Rightarrow> string \<Rightarrow> bool" where
  "startswith s [] = True"
| "startswith [] (p # ps) = False"
| "startswith (c # cs) (p # ps) = (c = p \<and> startswith cs ps)"

text \<open>\<^verbatim>\<open>sub in s\<close> on strings.\<close>

fun contains :: "string \<Rightarrow> string \<Rightarrow> bool" where
  "contains [] sub = (sub = [])"
| "contains (c # cs) sub = (startswith (c # cs) sub \<or> contains cs sub)"

text \<open>\<^verbatim>\<open>s.split(sep)\<close> for a separator of one character: never an empty list.\<close>

fun split :: "char \<Rightarrow> string \<Rightarrow> string list" where
  "split sep [] = [[]]"
| "split sep (c # cs) =
     (if c = sep then [] # split sep cs
      else (case split sep cs of [] \<Rightarrow> [[c]] | w # ws \<Rightarrow> (c # w) # ws))"

text \<open>\<^verbatim>\<open>sep.join(xs)\<close>.\<close>

fun join :: "string \<Rightarrow> string list \<Rightarrow> string" where
  "join sep [] = []"
| "join sep [x] = x"
| "join sep (x # y # ys) = x @ sep @ join sep (y # ys)"

text \<open>\<^verbatim>\<open>s.replace(c, r)\<close> for a pattern \<open>c\<close> of one character.\<close>

definition replace :: "char \<Rightarrow> string \<Rightarrow> string \<Rightarrow> string" where
  "replace c r s = concat (map (\<lambda>x. if x = c then r else [x]) s)"

definition isdigit_char :: "char \<Rightarrow> bool" where
  "isdigit_char c \<longleftrightarrow> c \<in> set ''0123456789''"

definition isdigit :: "string \<Rightarrow> bool" where
  "isdigit s \<longleftrightarrow> s \<noteq> [] \<and> list_all isdigit_char s"

definition digit_val :: "char \<Rightarrow> nat" where
  "digit_val c = (case map_of (zip ''0123456789'' [0, 1, 2, 3, 4, 5, 6, 7, 8, 9]) c of
                    Some d \<Rightarrow> d | None \<Rightarrow> 0)"

text \<open>
  \<^verbatim>\<open>int(s)\<close> on a string: surrounding whitespace is ignored, one sign is allowed, and
  single underscores may separate digits. Anything else raises \<^verbatim>\<open>ValueError\<close>.
  (The limit some interpreter versions put on the number of digits is not modelled.)
\<close>

fun digits_acc :: "nat \<Rightarrow> string \<Rightarrow> py_error + nat" where
  "digits_acc a [] = Inr a"
| "digits_acc a (c # cs) =
     (if isdigit_char c then digits_acc (10 * a + digit_val c) cs
      else if c = CHR ''_'' then
        (case cs of
           [] \<Rightarrow> Inl ValueError
         | d # ds \<Rightarrow> if isdigit_char d then digits_acc (10 * a + digit_val d) ds
                     else Inl ValueError)
      else Inl ValueError)"

definition digits_value :: "string \<Rightarrow> py_error + nat" where
  "digits_value s =
     (case s of
        [] \<Rightarrow> Inl ValueError
      | c # cs \<Rightarrow> if isdigit_char c then digits_acc (digit_val c) cs else Inl ValueError)"

definition py_int :: "string \<Rightarrow> py_error + int" where
  "py_int s =
     (case strip s of
        [] \<Rightarrow> Inl ValueError
      | c # cs \<Rightarrow>
          if c = CHR ''-'' then
            (case digits_value cs of Inl e \<Rightarrow> Inl e | Inr n \<Rightarrow> Inr (- int n))
          else if c = CHR ''+'' then
            (case digits_value cs of Inl e \<Rightarrow> Inl e | Inr n \<Rightarrow> Inr (int n))
          else
            (case digits_value (c # cs) of Inl e \<Rightarrow> Inl e | Inr n \<Rightarrow> Inr (int n)))"

text \<open>\<^verbatim>\<open>str(n)\<close> on an integer.\<close>

definition digit_char :: "nat \<Rightarrow> char" where
  "digit_char d = ''0123456789'' ! (d mod 10)"

fun str_nat :: "nat \<Rightarrow> string" where
  "str_nat n = (if n < 10 then [digit_char n] else str_nat (n div 10) @ [digit_char (n mod 10)])"

definition str_int :: "int \<Rightarrow> string" where
  "str_int i = (if i < 0 then CHR ''-'' # str_nat (nat (- i)) else str_nat (nat i))"

text \<open>Truth value of an optional string: \<^verbatim>\<open>None\<close> and the empty string are false.\<close>

definition truthy :: "string option \<Rightarrow> bool" where
  "truthy v = (case v of None \<Rightarrow> False | Some s \<Rightarrow> s \<noteq> [])"

text \<open>\<^verbatim>\<open>f"{v}"\<close> of an optional string.\<close>

definition fmt :: "string option \<Rightarrow> string" where
  "fmt v = (case v of None \<Rightarrow> ''None'' | Some s \<Rightarrow> s)"


section \<open>The type catalogue\<close>

record type_entry =
  pg :: string
  mysql :: string
  sqlite :: string

definition TYPE_MAPPING :: "(string \<times> type_entry) list" where
  "TYPE_MAPPING =
   [(''int'', \<lparr>pg = ''INTEGER'', mysql = ''INT'', sqlite = ''INTEGER''\<rparr>),
    (''bigint'', \<lparr>pg = ''BIGINT'', mysql = ''BIGINT'', sqlite = ''INTEGER''\<rparr>),
    (''smallint'', \<lparr>pg = ''SMALLINT'', mysql = ''SMALLINT'', sqlite = ''INTEGER''\<rparr>),
    (''tinyint'', \<lparr>pg = ''SMALLINT'', mysql = ''TINYINT'', sqlite = ''INTEGER''\<rparr>),
    (''bit'', \<lparr>pg = ''BOOLEAN'', mysql = ''BIT'', sqlite = ''INTEGER''\<rparr>),
    (''decimal'', \<lparr>pg = ''DECIMAL'', mysql = ''DECIMAL'', sqlite = ''REAL''\<rparr>),
    (''numeric'', \<lparr>pg = ''NUMERIC'', mysql = ''DECIMAL'', sqlite = ''REAL''\<rparr>),
    (''money'', \<lparr>pg = ''MONEY'', mysql = ''DECIMAL(19,4)'', sqlite = ''REAL''\<rparr>),
    (''smallmoney'', \<lparr>pg = ''MONEY'', mysql = ''DECIMAL(10,4)'', sqlite = ''REAL''\<rparr>),
    (''float'', \<lparr>pg = ''DOUBLE PRECISION'', mysql = ''DOUBLE'', sqlite = ''REAL''\<rparr>),
    (''real'', \<lparr>pg = ''REAL'', mysql = ''FLOAT'', sqlite = ''REAL''\<rparr>),
    (''datetime'', \<lparr>pg = ''TIMESTAMP'', mysql = ''DATETIME'', sqlite = ''TEXT''\<rparr>),
    (''datetime2'', \<lparr>pg = ''TIMESTAMP'', mysql = ''DATETIME(6)'', sqlite = ''TEXT''\<rparr>),
    (''date'', \<lparr>pg = ''DATE'', mysql = ''DATE'', sqlite = ''TEXT''\<rparr>),
    (''time'', \<lparr>pg = ''TIME'', mysql = ''TIME'', sqlite = ''TEXT''\<rparr>),
    (''char'', \<lparr>pg = ''CHAR'', mysql = ''CHAR'', sqlite = ''TEXT''\<rparr>),
    (''varchar'', \<lparr>pg = ''VARCHAR'', mysql = ''VARCHAR'', sqlite = ''TEXT''\<rparr>),
    (''nvarchar'', \<lparr>pg = ''VARCHAR'', mysql = ''VARCHAR'', sqlite = ''TEXT''\<rparr>),
    (''nchar'', \<lparr>pg = ''CHAR'', mysql = ''CHAR'', sqlite = ''TEXT''\<rparr>),
    (''text'', \<lparr>pg = ''TEXT'', mysql = ''TEXT'', sqlite = ''TEXT''\<rparr>),
    (''ntext'', \<lparr>pg = ''TEXT'', mysql = ''TEXT'', sqlite = ''TEXT''\<rparr>),
    (''xml'', \<lparr>pg = ''XML'', mysql = ''TEXT'', sqlite = ''TEXT''\<rparr>),
    (''uniqueidentifier'', \<lparr>pg = ''UUID'', mysql = ''CHAR(36)'', sqlite = ''TEXT''\<rparr>),
    (''varbinary'', \<lparr>pg = ''BYTEA'', mysql = ''VARBINARY'', sqlite = ''BLOB''\<rparr>),
    (''image'', \<lparr>pg = ''BYTEA'', mysql = ''LONGBLOB'', sqlite = ''BLOB''\<rparr>),
    (''timestamp'', \<lparr>pg = ''BYTEA'', mysql = ''BINARY(8)'', sqlite = ''BLOB''\<rparr>),
    (''hierarchyid'', \<lparr>pg = ''TEXT'', mysql = ''VARCHAR(892)'', sqlite = ''TEXT''\<rparr>)]"

text \<open>\<^verbatim>\<open>k in TYPE_MAPPING\<close> and \<^verbatim>\<open>TYPE_MAPPING[k]\<close>; the subscript raises on a missing key.\<close>

definition in_mapping :: "string \<Rightarrow> bool" where
  "in_mapping k \<longleftrightarrow> k \<in> set (map fst TYPE_MAPPING)"

definition getitem :: "string \<Rightarrow> py_error + type_entry" where
  "getitem k = (case map_of TYPE_MAPPING k of None \<Rightarrow> Inl KeyError | Some e \<Rightarrow> Inr e)"

definition convert_type_mssql_to_pg ::
  "string \<Rightarrow> string option \<Rightarrow> string option \<Rightarrow> string option \<Rightarrow> py_error + string" where
  "convert_type_mssql_to_pg mssql_type max_length precision scale =
     (let base_type = lower mssql_type in
      if in_mapping base_type then
        (case getitem base_type of
           Inl e \<Rightarrow> Inl e
         | Inr entry \<Rightarrow>
             let pg_type = pg entry in
             if base_type = ''xml'' then Inr ''TEXT''
             else if base_type \<in> set [''varchar'', ''nvarchar'', ''char'', ''nchar''] then
               (if truthy max_length \<and> max_length \<noteq> Some ''-1''
                then Inr (pg_type @ ''('' @ fmt max_length @ '')'')
                else Inr ''TEXT'')
             else if base_type \<in> set [''decimal'', ''numeric''] then
               (if truthy precision \<and> truthy scale
                then Inr (pg_type @ ''('' @ fmt precision @ '','' @ fmt scale @ '')'')
                else if truthy precision then Inr (pg_type @ ''('' @ fmt precision @ '')'')
                else Inr pg_type)
             else if base_type = ''varbinary'' then
               (if truthy max_length \<and> max_length \<noteq> Some ''-1''
                then Inr (''VARBINARY('' @ fmt max_length @ '')'')
                else Inr ''BYTEA'')
             else Inr pg_type)
      else Inr ''TEXT'')"

definition convert_type_mssql_to_mysql ::
  "string \<Rightarrow> string option \<Rightarrow> string option \<Rightarrow> string option \<Rightarrow> py_error + string" where
  "convert_type_mssql_to_mysql mssql_type max_length precision scale =
     (let base_type = lower mssql_type in
      if in_mapping base_type then
        (case getitem base_type of
           Inl e \<Rightarrow> Inl e
         | Inr entry \<Rightarrow>
             let mysql_type = mysql entry in
             if base_type = ''xml'' then Inr ''TEXT''
             else if base_type = ''hierarchyid'' then
               (if truthy max_length \<and> max_length \<noteq> Some ''-1''
                then Inr (''VARCHAR('' @ fmt max_length @ '')'')
                else Inr ''VARCHAR(892)'')
             else if base_type \<in> set [''varchar'', ''nvarchar'', ''char'', ''nchar''] then
               (if truthy max_length \<and> max_length \<noteq> Some ''-1'' \<and> max_length \<noteq> Some ''NULL''
                then
                  (if base_type = ''nvarchar'' \<or> base_type = ''nchar'' then
                     (case py_int (fmt max_length) of
                        Inl e \<Rightarrow> Inr ''TEXT''
                      | Inr max_len_int \<Rightarrow>
                          if max_len_int > 16383 \<or> max_len_int * 3 > 65535 then Inr ''TEXT''
                          else Inr (''VARCHAR('' @ str_int (min (max_len_int * 4) 65535) @ '')''))
                   else
                     (case py_int (fmt max_length) of
                        Inl e \<Rightarrow> Inr ''TEXT''
                      | Inr max_len_int \<Rightarrow>
                          if max_len_int > 65535 then Inr ''TEXT''
                          else Inr (mysql_type @ ''('' @ fmt max_length @ '')'')))
                else Inr ''TEXT'')
             else if base_type \<in> set [''decimal'', ''numeric''] then
               (if truthy precision \<and> truthy scale
                then Inr (mysql_type @ ''('' @ fmt precision @ '','' @ fmt scale @ '')'')
                else if truthy precision then Inr (mysql_type @ ''('' @ fmt precision @ '')'')
                else Inr mysql_type)
             else if base_type = ''varbinary'' then
               (if truthy max_length \<and> max_length \<noteq> Some ''-1''
                then Inr (''VARBINARY('' @ fmt max_length @ '')'')
                else Inr ''LONGBLOB'')
             else Inr mysql_type)
      else Inr ''TEXT'')"

definition convert_type_mssql_to_sqlite ::
  "string \<Rightarrow> string option \<Rightarrow> string option \<Rightarrow> string option \<Rightarrow> py_error + string" where
  "convert_type_mssql_to_sqlite mssql_type max_length precision scale =
     (let base_type = lower mssql_type in
      if in_mapping base_type then
        (case getitem base_type of
           Inl e \<Rightarrow> Inl e
         | Inr entry \<Rightarrow>
             let sqlite_type = sqlite entry in
             if base_type \<in> set [''decimal'', ''numeric'', ''money'', ''smallmoney'']
               then Inr ''REAL''
             else if base_type \<in> set [''varchar'', ''nvarchar'', ''char'', ''nchar'', ''text'',
                                        ''ntext'', ''xml'']
               then Inr ''TEXT''
             else if base_type \<in> set [''varbinary'', ''image'', ''timestamp''] then Inr ''BLOB''
             else if base_type = ''hierarchyid'' then Inr ''TEXT''
             else if base_type = ''uniqueidentifier'' then Inr ''TEXT''
             else if base_type \<in> set [''datetime'', ''datetime2'', ''date'', ''time'']
               then Inr ''TEXT''
             else if base_type \<in> set [''int'', ''bigint'', ''smallint'', ''tinyint'', ''bit'']
               then Inr ''INTEGER''
             else if base_type \<in> set [''float'', ''real''] then Inr ''REAL''
             else Inr sqlite_type)
      else Inr ''TEXT'')"


section \<open>Properties of the type catalogue\<close>

lemma getitem_in_mapping: "in_mapping k \<Longrightarrow> \<exists>e. getitem k = Inr e"
proof -
  assume "in_mapping k"
  then have "k \<in> dom (map_of TYPE_MAPPING)"
    unfolding in_mapping_def by (simp only: dom_map_of_conv_image_fst set_map)
  then obtain e where "map_of TYPE_MAPPING k = Some e" by blast
  then show ?thesis by (simp add: getitem_def)
qed

lemma convert_pg_total: "\<exists>t. convert_type_mssql_to_pg ty ml p s = Inr t"
proof (cases "in_mapping (lower ty)")
  case True
  then obtain e where "getitem (lower ty) = Inr e" using getitem_in_mapping by blast
  with True show ?thesis by (simp add: convert_type_mssql_to_pg_def Let_def)
next
  case False
  then show ?thesis by (simp add: convert_type_mssql_to_pg_def Let_def)
qed

lemma convert_mysql_total: "\<exists>t. convert_type_mssql_to_mysql ty ml p s = Inr t"
proof (cases "in_mapping (lower ty)")
  case True
  then obtain e where "getitem (lower ty) = Inr e" using getitem_in_mapping by blast
  with True show ?thesis
    by (simp add: convert_type_mssql_to_mysql_def Let_def split: sum.split)
next
  case False
  then show ?thesis by (simp add: convert_type_mssql_to_mysql_def Let_def)
qed

lemma convert_sqlite_total: "\<exists>t. convert_type_mssql_to_sqlite ty ml p s = Inr t"
proof (cases "in_mapping (lower ty)")
  case True
  then obtain e where "getitem (lower ty) = Inr e" using getitem_in_mapping by blast
  with True show ?thesis by (simp add: convert_type_mssql_to_sqlite_def Let_def)
next
  case False
  then show ?thesis by (simp add: convert_type_mssql_to_sqlite_def Let_def)
qed

text \<open>
  Claim C7. Each of the three type-conversion functions returns a target type for every
  source type string and every combination of \<open>max_length\<close>, \<open>precision\<close> and \<open>scale\<close>:
  the dictionary subscript and the integer parse never let an exception escape. A source
  type that is not a key of the catalogue resolves to \<open>TEXT\<close> in each dialect.
\<close>

theorem convert_type_total_and_fallback:
  "(\<exists>t. convert_type_mssql_to_pg ty ml p s = Inr t) \<and>
   (\<exists>t. convert_type_mssql_to_mysql ty ml p s = Inr t) \<and>
   (\<exists>t. convert_type_mssql_to_sqlite ty ml p s = Inr t) \<and>
   (\<not> in_mapping (lower ty) \<longrightarrow>
      convert_type_mssql_to_pg ty ml p s = Inr ''TEXT'' \<and>
      convert_type_mssql_to_mysql ty ml p s = Inr ''TEXT'' \<and>
      convert_type_mssql_to_sqlite ty ml p s = Inr ''TEXT'')"
proof -
  have "\<not> in_mapping (lower ty) \<longrightarrow>
      convert_type_mssql_to_pg ty ml p s = Inr ''TEXT'' \<and>
      convert_type_mssql_to_mysql ty ml p s = Inr ''TEXT'' \<and>
      convert_type_mssql_to_sqlite ty ml p s = Inr ''TEXT''"
    by (simp add: convert_type_mssql_to_pg_def convert_type_mssql_to_mysql_def
        convert_type_mssql_to_sqlite_def Let_def)
  then show ?thesis
    using convert_pg_total convert_mysql_total convert_sqlite_total by blast
qed

theorem convert_type_total_and_fallback_witness:
  "\<not> in_mapping (lower ''Geography'') \<and>
   convert_type_mssql_to_pg ''Geography'' None None None = Inr ''TEXT'' \<and>
   convert_type_mssql_to_mysql ''Geography'' (Some ''10'') None None = Inr ''TEXT'' \<and>
   convert_type_mssql_to_sqlite ''Geography'' None (Some ''5'') (Some ''2'') = Inr ''TEXT''"
proof -
  have h: "\<not> in_mapping (lower ''Geography'')"
    by (simp add: in_mapping_def lower_def lower_char_def TYPE_MAPPING_def)
  show ?thesis
    using h convert_type_total_and_fallback [of "''Geography''" None None None]
      convert_type_total_and_fallback [of "''Geography''" "Some ''10''" None None]
      convert_type_total_and_fallback [of "''Geography''" None "Some ''5''" "Some ''2''"]
    by blast
qed

lemma py_int_empty: "py_int [] = Inl ValueError"
  by (simp add: py_int_def strip_def lstrip_def rstrip_def)

lemma py_int_NULL: "py_int ''NULL'' = Inl ValueError"
  by (simp add: py_int_def strip_def lstrip_def rstrip_def isspace_def digits_value_def
      isdigit_char_def)

lemma getitem_char_types:
  "getitem ''char'' = Inr \<lparr>pg = ''CHAR'', mysql = ''CHAR'', sqlite = ''TEXT''\<rparr>"
  "getitem ''varchar'' = Inr \<lparr>pg = ''VARCHAR'', mysql = ''VARCHAR'', sqlite = ''TEXT''\<rparr>"
  "getitem ''nchar'' = Inr \<lparr>pg = ''CHAR'', mysql = ''CHAR'', sqlite = ''TEXT''\<rparr>"
  "getitem ''nvarchar'' = Inr \<lparr>pg = ''VARCHAR'', mysql = ''VARCHAR'', sqlite = ''TEXT''\<rparr>"
  by (simp_all add: getitem_def TYPE_MAPPING_def)

lemma in_mapping_char_types:
  "in_mapping ''char''" "in_mapping ''varchar''" "in_mapping ''nchar''" "in_mapping ''nvarchar''"
  by (simp_all add: in_mapping_def TYPE_MAPPING_def)

text \<open>
  Claim C8. Character types on the MySQL path. With \<open>max_length\<close> absent or the
  sentinel \<open>-1\<close> the type is \<open>TEXT\<close>. With a \<open>max_length\<close> that reads as the integer \<open>k\<close>:
  \<open>char\<close> and \<open>varchar\<close> keep their own length, unless \<open>k\<close> exceeds the field width
  65535, which gives \<open>TEXT\<close>; \<open>nchar\<close> and \<open>nvarchar\<close> are declared with the length
  \<open>4 * k\<close>, unless \<open>4 * k\<close> exceeds 65535, which gives \<open>TEXT\<close>.
\<close>

theorem mysql_character_type_resolution:
  assumes "lower ty \<in> {''char'', ''varchar'', ''nchar'', ''nvarchar''}"
  shows "(ml = None \<or> ml = Some ''-1'' \<longrightarrow>
            convert_type_mssql_to_mysql ty ml p s = Inr ''TEXT'') \<and>
         (\<forall>m k. ml = Some m \<and> m \<noteq> ''-1'' \<and> py_int m = Inr k \<longrightarrow>
            convert_type_mssql_to_mysql ty ml p s =
              (if lower ty \<in> {''nchar'', ''nvarchar''}
               then (if k * 4 > 65535 then Inr ''TEXT''
                     else Inr (''VARCHAR('' @ str_int (k * 4) @ '')''))
               else (if k > 65535 then Inr ''TEXT''
                     else Inr ((if lower ty = ''char'' then ''CHAR'' else ''VARCHAR'')
                               @ ''('' @ m @ '')''))))"
proof (intro conjI allI impI)
  assume "ml = None \<or> ml = Some ''-1''"
  with assms show "convert_type_mssql_to_mysql ty ml p s = Inr ''TEXT''"
    by (auto simp: convert_type_mssql_to_mysql_def Let_def in_mapping_char_types
        getitem_char_types truthy_def)
next
  fix m k
  assume h: "ml = Some m \<and> m \<noteq> ''-1'' \<and> py_int m = Inr k"
  then have ne: "m \<noteq> []" "m \<noteq> ''NULL''"
    using py_int_empty py_int_NULL by auto
  have wide: "(k > 16383 \<or> k * 3 > 65535) = (k * 4 > 65535)" by arith
  have mn: "\<not> k * 4 > 65535 \<Longrightarrow> min (k * 4) 65535 = k * 4" by simp
  from assms h ne show "convert_type_mssql_to_mysql ty ml p s =
              (if lower ty \<in> {''nchar'', ''nvarchar''}
               then (if k * 4 > 65535 then Inr ''TEXT''
                     else Inr (''VARCHAR('' @ str_int (k * 4) @ '')''))
               else (if k > 65535 then Inr ''TEXT''
                     else Inr ((if lower ty = ''char'' then ''CHAR'' else ''VARCHAR'')
                               @ ''('' @ m @ '')'')))"
    using wide mn
    by (auto simp: convert_type_mssql_to_mysql_def Let_def in_mapping_char_types
        getitem_char_types truthy_def fmt_def)
qed

theorem mysql_character_type_resolution_witness:
  "lower ''NVarChar'' \<in> {''char'', ''varchar'', ''nchar'', ''nvarchar''} \<and>
   py_int ''50'' = Inr 50 \<and> py_int ''16384'' = Inr 16384 \<and>
   convert_type_mssql_to_mysql ''NVarChar'' None None None = Inr ''TEXT'' \<and>
   convert_type_mssql_to_mysql ''NVarChar'' (Some ''50'') None None = Inr ''VARCHAR(200)'' \<and>
   convert_type_mssql_to_mysql ''NVarChar'' (Some ''16384'') None None = Inr ''TEXT''"
proof -
  have l: "lower ''NVarChar'' = ''nvarchar''"
    by (simp add: lower_def lower_char_def)
  have h: "lower ''NVarChar'' \<in> {''char'', ''varchar'', ''nchar'', ''nvarchar''}"
    by (simp add: l)
  have i1: "py_int ''50'' = Inr 50"
    by (simp add: py_int_def strip_def lstrip_def rstrip_def isspace_def digits_value_def
        isdigit_char_def digit_val_def)
  have i2: "py_int ''16384'' = Inr 16384"
    by (simp add: py_int_def strip_def lstrip_def rstrip_def isspace_def digits_value_def
        isdigit_char_def digit_val_def)
  have s: "str_int 200 = ''200''"
    by (simp add: str_int_def digit_char_def)
  show ?thesis
    using h i1 i2 s l
      mysql_character_type_resolution [OF h, of None None None]
      mysql_character_type_resolution [OF h, of "Some ''50''" None None]
      mysql_character_type_resolution [OF h, of "Some ''16384''" None None]
    by simp
qed


section \<open>Schema introspection\<close>

text \<open>
  A column as \<^verbatim>\<open>get_table_definition_mssql\<close> builds it (a dictionary with these eight
  keys).
\<close>

record column =
  name :: string
  data_type :: string
  is_nullable :: bool
  max_length :: "string option"
  precision :: "string option"
  scale :: "string option"
  is_pk :: bool
  is_identity :: bool

text \<open>
  \<^verbatim>\<open>run_sql_mssql\<close> returns the output text and the status code of one query. The source
  database is only read, and the four metadata queries of one table are sent once each,
  so their answers are inputs of the model.
\<close>

type_synonym sql_result = "string \<times> int"

text \<open>The filter of the output lines of the key, identity and computed-column queries.\<close>

definition name_line_ok :: "string \<Rightarrow> bool" where
  "name_line_ok line \<longleftrightarrow>
     line \<noteq> [] \<and> \<not> startswith line ''('' \<and> \<not> startswith line ''-'' \<and>
     \<not> contains (lower line) ''COLUMN_NAME''"

definition parse_names :: "sql_result \<Rightarrow> string list" where
  "parse_names r =
     (if snd r = 0 then
        concat (map (\<lambda>line0.
                  let line = strip line0 in
                  if name_line_ok line then
                    (case split CHR '','' line of [] \<Rightarrow> [] | part # _ \<Rightarrow> [strip part])
                  else [])
                (split NEWLINE (fst r)))
      else [])"

definition opt_field :: "string \<Rightarrow> string option" where
  "opt_field part = (if part \<noteq> [] \<and> part \<noteq> ''NULL'' \<and> part \<noteq> [] then Some part else None)"

text \<open>The body of the loop over the lines of the column query.\<close>

definition parse_column_line :: "string list \<Rightarrow> string list \<Rightarrow> string \<Rightarrow> column option" where
  "parse_column_line pk_columns identity_columns line0 =
     (let line = strip line0 in
      if line \<noteq> [] \<and> \<not> startswith line ''('' \<and> \<not> startswith line ''-'' \<and>
         \<not> contains (lower line) ''COLUMN_NAME'' \<and> \<not> contains (lower line) ''rows''
      then
        (let parts = map strip (split CHR '','' line) in
         if length parts \<ge> 6 then
           (let col_name = parts ! 0 in
            if col_name \<noteq> [] \<and> length col_name > 1 then
              Some \<lparr>name = col_name,
                    data_type = lower (parts ! 1),
                    is_nullable = (parts ! 2 = ''YES''),
                    max_length = opt_field (parts ! 3),
                    precision = opt_field (parts ! 4),
                    scale = opt_field (parts ! 5),
                    is_pk = (col_name \<in> set pk_columns),
                    is_identity = (col_name \<in> set identity_columns)\<rparr>
            else None)
         else None)
      else None)"

definition get_table_definition_mssql ::
  "sql_result \<Rightarrow> sql_result \<Rightarrow> sql_result \<Rightarrow> sql_result \<Rightarrow> column list" where
  "get_table_definition_mssql r1 r2 r3 r4 =
     (if snd r1 \<noteq> 0 then []
      else
        (let pk_columns = parse_names r2;
             identity_columns = parse_names r3;
             columns = List.map_filter (parse_column_line pk_columns identity_columns)
                         (split NEWLINE (fst r1));
             computed_columns = parse_names r4
         in filter (\<lambda>col. name col \<notin> set computed_columns) columns))"

lemma parse_column_line_name:
  "parse_column_line pks ids line = Some c \<Longrightarrow> 2 \<le> length (name c)"
  by (auto simp: parse_column_line_def Let_def split: if_splits)

lemma parse_column_line_short_name:
  assumes "split CHR '','' (strip line) = part # rest" and "length (strip part) = 1"
  shows "parse_column_line pks ids line = None"
  using assms by (simp add: parse_column_line_def Let_def)

text \<open>
  Claim C10. Every column that the introspection returns has a name of at least two
  characters, and a metadata line whose first field is one character long yields no
  column, whatever the rest of the line holds.
\<close>

theorem described_columns_have_long_names:
  "(\<forall>c \<in> set (get_table_definition_mssql r1 r2 r3 r4). 2 \<le> length (name c)) \<and>
   (\<forall>line part rest. split CHR '','' (strip line) = part # rest \<and> length (strip part) = 1
       \<longrightarrow> parse_column_line pks ids line = None)"
proof (intro conjI ballI allI impI)
  fix c
  assume "c \<in> set (get_table_definition_mssql r1 r2 r3 r4)"
  then obtain line where "parse_column_line (parse_names r2) (parse_names r3) line = Some c"
    by (auto simp: get_table_definition_mssql_def Let_def List.map_filter_def split: if_splits)
  then show "2 \<le> length (name c)" by (rule parse_column_line_name)
next
  fix line part rest
  assume "split CHR '','' (strip line) = part # rest \<and> length (strip part) = 1"
  then show "parse_column_line pks ids line = None"
    using parse_column_line_short_name by blast
qed

theorem described_columns_have_long_names_witness:
  "get_table_definition_mssql
     (''ID,int,NO,NULL,10,0'' @ [NEWLINE] @ ''X,int,YES,NULL,10,0'' @ [NEWLINE] @
      ''Name,nvarchar,NO,50,NULL,NULL'' @ [NEWLINE] @ [NEWLINE] @ ''(3 rows affected)'', 0)
     (''ID'', 0) (''ID'', 0) ([], 0) =
   [\<lparr>name = ''ID'', data_type = ''int'', is_nullable = False, max_length = None,
     precision = Some ''10'', scale = Some ''0'', is_pk = True, is_identity = True\<rparr>,
    \<lparr>name = ''Name'', data_type = ''nvarchar'', is_nullable = False,
     max_length = Some ''50'', precision = None, scale = None, is_pk = False,
     is_identity = False\<rparr>] \<and>
   list_all (\<lambda>c. 2 \<le> length (name c)) (get_table_definition_mssql
     (''ID,int,NO,NULL,10,0'' @ [NEWLINE] @ ''X,int,YES,NULL,10,0'' @ [NEWLINE] @
      ''Name,nvarchar,NO,50,NULL,NULL'' @ [NEWLINE] @ [NEWLINE] @ ''(3 rows affected)'', 0)
     (''ID'', 0) (''ID'', 0) ([], 0)) \<and>
   split CHR '','' (strip ''X,int,YES,NULL,10,0'') = ''X'' # [''int'', ''YES'', ''NULL'', ''10'', ''0''] \<and>
   length (strip ''X'') = 1 \<and>
   parse_column_line [''ID''] [''ID''] ''X,int,YES,NULL,10,0'' = None"
proof -
  have e: "get_table_definition_mssql
     (''ID,int,NO,NULL,10,0'' @ [NEWLINE] @ ''X,int,YES,NULL,10,0'' @ [NEWLINE] @
      ''Name,nvarchar,NO,50,NULL,NULL'' @ [NEWLINE] @ [NEWLINE] @ ''(3 rows affected)'', 0)
     (''ID'', 0) (''ID'', 0) ([], 0) =
   [\<lparr>name = ''ID'', data_type = ''int'', is_nullable = False, max_length = None,
     precision = Some ''10'', scale = Some ''0'', is_pk = True, is_identity = True\<rparr>,
    \<lparr>name = ''Name'', data_type = ''nvarchar'', is_nullable = False,
     max_length = Some ''50'', precision = None, scale = None, is_pk = False,
     is_identity = False\<rparr>]"
    by code_simp
  have s: "split CHR '','' (strip ''X,int,YES,NULL,10,0'') =
           ''X'' # [''int'', ''YES'', ''NULL'', ''10'', ''0'']"
    by code_simp
  have l: "length (strip ''X'') = 1" by code_simp
  from described_columns_have_long_names
    [of "(''ID,int,NO,NULL,10,0'' @ [NEWLINE] @ ''X,int,YES,NULL,10,0'' @ [NEWLINE] @
      ''Name,nvarchar,NO,50,NULL,NULL'' @ [NEWLINE] @ [NEWLINE] @ ''(3 rows affected)'', 0)"
      "(''ID'', 0)" "(''ID'', 0)" "([], 0)" "[''ID'']" "[''ID'']"]
  show ?thesis using e s l unfolding list_all_iff by blast
qed

section \<open>Building the CREATE TABLE statements\<close>

text \<open>A loop that calls a function which may raise: the first exception ends it.\<close>

fun traverse :: "('a \<Rightarrow> py_error + 'b) \<Rightarrow> 'a list \<Rightarrow> py_error + 'b list" where
  "traverse f [] = Inr []"
| "traverse f (x # xs) =
     (case f x of
        Inl e \<Rightarrow> Inl e
      | Inr y \<Rightarrow> (case traverse f xs of Inl e \<Rightarrow> Inl e | Inr ys \<Rightarrow> Inr (y # ys)))"

definition num_pk_cols :: "column list \<Rightarrow> nat" where
  "num_pk_cols columns = length (filter is_pk columns)"

definition integer_family :: "string list" where
  "integer_family = [''int'', ''bigint'', ''smallint'', ''tinyint'']"

subsection \<open>\<^verbatim>\<open>create_table_sqlite\<close>\<close>

definition sqlite_col_def :: "column list \<Rightarrow> column \<Rightarrow> py_error + string" where
  "sqlite_col_def columns col =
     (case convert_type_mssql_to_sqlite (data_type col) (max_length col) (precision col)
             (scale col) of
        Inl e \<Rightarrow> Inl e
      | Inr sqlite_type \<Rightarrow>
          if is_identity col \<and> is_pk col \<and> num_pk_cols columns = 1 \<and>
             lower (data_type col) \<in> set integer_family
          then Inr (''`'' @ name col @ ''` '' @ sqlite_type @ '' PRIMARY KEY AUTOINCREMENT'')
          else Inr (''`'' @ name col @ ''` '' @ sqlite_type @
                    (if is_nullable col then [] else '' NOT NULL'')))"

definition sqlite_pk_cols :: "column list \<Rightarrow> string list" where
  "sqlite_pk_cols columns =
     map (\<lambda>col. ''`'' @ name col @ ''`'')
       (filter (\<lambda>col. is_pk col \<and> \<not> (is_identity col \<and> num_pk_cols columns = 1)) columns)"

definition sqlite_col_defs :: "column list \<Rightarrow> py_error + string list" where
  "sqlite_col_defs columns =
     (case traverse (sqlite_col_def columns) columns of
        Inl e \<Rightarrow> Inl e
      | Inr col_defs \<Rightarrow>
          if sqlite_pk_cols columns \<noteq> []
          then Inr (col_defs @ [''PRIMARY KEY ('' @ join '', '' (sqlite_pk_cols columns) @ '')''])
          else Inr col_defs)"

definition create_table_sqlite_sql :: "column list \<Rightarrow> string \<Rightarrow> string \<Rightarrow> py_error + string" where
  "create_table_sqlite_sql columns schema table =
     (case sqlite_col_defs columns of
        Inl e \<Rightarrow> Inl e
      | Inr col_defs \<Rightarrow>
          Inr (''CREATE TABLE `'' @ schema @ ''_'' @ table @ ''` ('' @ join '', '' col_defs @ '');''))"

subsection \<open>\<^verbatim>\<open>create_table_mysql\<close>\<close>

definition mysql_col_def :: "column list \<Rightarrow> column \<Rightarrow> py_error + string" where
  "mysql_col_def columns col =
     (case convert_type_mssql_to_mysql (data_type col) (max_length col) (precision col)
             (scale col) of
        Inl e \<Rightarrow> Inl e
      | Inr mysql_type \<Rightarrow>
          Inr (''`'' @ name col @ ''`'' @ '' '' @ mysql_type @
               (if is_identity col \<and> is_pk col \<and> num_pk_cols columns = 1
                then '' AUTO_INCREMENT'' else []) @
               (if is_nullable col then [] else '' NOT NULL'')))"

text \<open>The entry of one primary-key column in the key clause, with its prefix length.\<close>

definition mysql_pk_col :: "column \<Rightarrow> string" where
  "mysql_pk_col col =
     (let dt = lower (data_type col); quoted = ''`'' @ name col @ ''`'' in
      if dt = ''hierarchyid'' then quoted @ ''(191)''
      else if dt \<in> set [''nvarchar'', ''varchar''] \<and> truthy (max_length col) then
        (case py_int (fmt (max_length col)) of
           Inl e \<Rightarrow> quoted
         | Inr max_len \<Rightarrow>
             if dt = ''nvarchar'' \<and> max_len * 4 > 767 then quoted @ ''(191)''
             else if max_len > 767 then quoted @ ''(767)''
             else quoted)
      else if dt \<in> set [''nchar'', ''char''] \<and> truthy (max_length col) then
        (case py_int (fmt (max_length col)) of
           Inl e \<Rightarrow> quoted
         | Inr max_len \<Rightarrow>
             if dt = ''nchar'' \<and> max_len * 4 > 767 then quoted @ ''(191)''
             else if max_len > 767 then quoted @ ''(767)''
             else quoted)
      else quoted)"

definition mysql_pk_cols :: "column list \<Rightarrow> string list" where
  "mysql_pk_cols columns = map mysql_pk_col (filter is_pk columns)"

definition mysql_col_defs :: "column list \<Rightarrow> py_error + string list" where
  "mysql_col_defs columns =
     (case traverse (mysql_col_def columns) columns of
        Inl e \<Rightarrow> Inl e
      | Inr col_defs \<Rightarrow>
          if mysql_pk_cols columns \<noteq> []
          then Inr (col_defs @ [''PRIMARY KEY ('' @ join '', '' (mysql_pk_cols columns) @ '')''])
          else Inr col_defs)"

definition create_table_mysql_sql ::
  "column list \<Rightarrow> string \<Rightarrow> string \<Rightarrow> string \<Rightarrow> py_error + string" where
  "create_table_mysql_sql columns schema table database =
     (case mysql_col_defs columns of
        Inl e \<Rightarrow> Inl e
      | Inr col_defs \<Rightarrow>
          Inr (''CREATE TABLE `'' @ database @ ''`.`'' @ schema @ ''_'' @ table @ ''` ('' @
               join '', '' col_defs @ '');''))"

subsection \<open>Properties of the key rendering\<close>

lemma traverse_total:
  "(\<And>x. x \<in> set xs \<Longrightarrow> \<exists>y. f x = Inr y) \<Longrightarrow> \<exists>ys. traverse f xs = Inr ys \<and> length ys = length xs"
proof (induction xs)
  case Nil
  then show ?case by simp
next
  case (Cons x xs)
  then obtain y where y: "f x = Inr y" by (meson list.set_intros(1))
  from Cons obtain ys where "traverse f xs = Inr ys \<and> length ys = length xs"
    by (meson list.set_intros(2))
  with y show ?case by simp
qed

lemma sqlite_col_def_total: "\<exists>d. sqlite_col_def columns col = Inr d"
proof -
  obtain t where "convert_type_mssql_to_sqlite (data_type col) (max_length col) (precision col) (scale col) = Inr t"
    using convert_sqlite_total by blast
  then show ?thesis by (simp add: sqlite_col_def_def Let_def)
qed

lemma mysql_col_def_total: "\<exists>d. mysql_col_def columns col = Inr d"
proof -
  obtain t where "convert_type_mssql_to_mysql (data_type col) (max_length col) (precision col) (scale col) = Inr t"
    using convert_mysql_total by blast
  then show ?thesis by (simp add: mysql_col_def_def Let_def)
qed

lemma in_mapping_integer_family:
  "in_mapping ''int''" "in_mapping ''bigint''" "in_mapping ''smallint''" "in_mapping ''tinyint''"
  by (simp_all add: in_mapping_def TYPE_MAPPING_def)

lemma getitem_integer_family:
  "getitem ''int'' = Inr \<lparr>pg = ''INTEGER'', mysql = ''INT'', sqlite = ''INTEGER''\<rparr>"
  "getitem ''bigint'' = Inr \<lparr>pg = ''BIGINT'', mysql = ''BIGINT'', sqlite = ''INTEGER''\<rparr>"
  "getitem ''smallint'' = Inr \<lparr>pg = ''SMALLINT'', mysql = ''SMALLINT'', sqlite = ''INTEGER''\<rparr>"
  "getitem ''tinyint'' = Inr \<lparr>pg = ''SMALLINT'', mysql = ''TINYINT'', sqlite = ''INTEGER''\<rparr>"
  by (simp_all add: getitem_def TYPE_MAPPING_def)

lemma convert_sqlite_integer:
  assumes "lower ty \<in> set integer_family"
  shows "convert_type_mssql_to_sqlite ty ml p s = Inr ''INTEGER''"
proof -
  from assms consider "lower ty = ''int''" | "lower ty = ''bigint''" | "lower ty = ''smallint''"
    | "lower ty = ''tinyint''"
    by (auto simp: integer_family_def)
  then show ?thesis
    by cases (simp_all add: convert_type_mssql_to_sqlite_def Let_def in_mapping_integer_family
        getitem_integer_family)
qed

lemma single_pk:
  assumes "filter is_pk columns = [c]"
  shows "num_pk_cols columns = 1" "c \<in> set columns" "is_pk c" "\<And>col. col \<in> set columns \<Longrightarrow> is_pk col \<Longrightarrow> col = c"
proof -
  show "num_pk_cols columns = 1" using assms by (simp add: num_pk_cols_def)
  have "c \<in> set (filter is_pk columns)" using assms by simp
  then show "c \<in> set columns" "is_pk c" by auto
  fix col assume "col \<in> set columns" "is_pk col"
  then have "col \<in> set (filter is_pk columns)" by simp
  then show "col = c" using assms by simp
qed

lemma sqlite_single_autoincrement:
  assumes "filter is_pk columns = [c]" "is_identity c" "lower (data_type c) \<in> set integer_family"
  shows "sqlite_col_def columns c = Inr (''`'' @ name c @ ''` INTEGER PRIMARY KEY AUTOINCREMENT'')"
    and "sqlite_col_defs columns = traverse (sqlite_col_def columns) columns"
proof -
  have n: "num_pk_cols columns = 1" and pk: "is_pk c"
    using single_pk[OF assms(1)] by blast+
  have cv: "convert_type_mssql_to_sqlite (data_type c) (max_length c) (precision c) (scale c)
            = Inr ''INTEGER''"
    using assms(3) by (rule convert_sqlite_integer)
  show "sqlite_col_def columns c = Inr (''`'' @ name c @ ''` INTEGER PRIMARY KEY AUTOINCREMENT'')"
    unfolding sqlite_col_def_def cv using assms(2,3) n pk by simp
  have "\<And>col. col \<in> set columns \<Longrightarrow> \<not> (is_pk col \<and> \<not> (is_identity col \<and> num_pk_cols columns = 1))"
  proof
    fix col assume a: "col \<in> set columns" "is_pk col \<and> \<not> (is_identity col \<and> num_pk_cols columns = 1)"
    then have "col = c" using single_pk(4)[OF assms(1)] by blast
    with a assms(2) n show False by blast
  qed
  then have "filter (\<lambda>col. is_pk col \<and> \<not> (is_identity col \<and> num_pk_cols columns = 1)) columns = []"
    unfolding filter_empty_conv by blast
  then have "sqlite_pk_cols columns = []" by (simp add: sqlite_pk_cols_def)
  then show "sqlite_col_defs columns = traverse (sqlite_col_def columns) columns"
    by (simp add: sqlite_col_defs_def split: sum.split)
qed

lemma sqlite_composite_key:
  assumes "filter is_pk columns \<noteq> []" "\<not> (\<exists>c. filter is_pk columns = [c] \<and> is_identity c)"
  shows "\<exists>ds. traverse (sqlite_col_def columns) columns = Inr ds \<and> length ds = length columns \<and>
     sqlite_col_defs columns = Inr (ds @ [''PRIMARY KEY ('' @ join '', '' (map (\<lambda>col. ''`'' @ name col @ ''`'') (filter is_pk columns)) @ '')''])"
proof -
  obtain ds where ds: "traverse (sqlite_col_def columns) columns = Inr ds \<and> length ds = length columns"
    using traverse_total[of columns "sqlite_col_def columns"] sqlite_col_def_total by blast
  have "\<And>col. col \<in> set columns \<Longrightarrow> is_pk col \<Longrightarrow> \<not> (is_identity col \<and> num_pk_cols columns = 1)"
  proof
    fix col assume a: "col \<in> set columns" "is_pk col" "is_identity col \<and> num_pk_cols columns = 1"
    then have "length (filter is_pk columns) = 1" by (simp add: num_pk_cols_def)
    then obtain c where c: "filter is_pk columns = [c]"
      by (cases "filter is_pk columns") auto
    with a single_pk(4)[OF c] have "col = c" by blast
    with a c assms(2) show False by blast
  qed
  then have "filter (\<lambda>col. is_pk col \<and> \<not> (is_identity col \<and> num_pk_cols columns = 1)) columns = filter is_pk columns"
    by (auto intro: filter_cong)
  then have "sqlite_pk_cols columns = map (\<lambda>col. ''`'' @ name col @ ''`'') (filter is_pk columns)"
    by (simp add: sqlite_pk_cols_def)
  with ds assms(1) show ?thesis by (simp add: sqlite_col_defs_def)
qed

lemma mysql_key_clause:
  assumes "filter is_pk columns \<noteq> []"
  shows "\<exists>ds. traverse (mysql_col_def columns) columns = Inr ds \<and> length ds = length columns \<and>
     mysql_col_defs columns = Inr (ds @ [''PRIMARY KEY ('' @ join '', '' (map mysql_pk_col (filter is_pk columns)) @ '')''])"
proof -
  obtain ds where ds: "traverse (mysql_col_def columns) columns = Inr ds \<and> length ds = length columns"
    using traverse_total[of columns "mysql_col_def columns"] mysql_col_def_total by blast
  with assms show ?thesis by (simp add: mysql_col_defs_def mysql_pk_cols_def)
qed

lemma mysql_auto_increment:
  assumes "filter is_pk columns = [c]" "is_identity c"
  shows "\<exists>t. convert_type_mssql_to_mysql (data_type c) (max_length c) (precision c) (scale c) = Inr t \<and>
      mysql_col_def columns c = Inr (''`'' @ name c @ ''` '' @ t @ '' AUTO_INCREMENT'' @ (if is_nullable c then '''' else '' NOT NULL''))"
proof -
  obtain t where t: "convert_type_mssql_to_mysql (data_type c) (max_length c) (precision c) (scale c) = Inr t"
    using convert_mysql_total by blast
  note s = single_pk[OF assms(1)]
  from t s(1,3) assms(2) show ?thesis by (simp add: mysql_col_def_def Let_def)
qed

lemma lower_int: "lower ''int'' = ''int''"
  by (simp add: lower_def lower_char_def)

lemma mysql_single_key_evaluated:
  "mysql_col_defs [\<lparr>name = ''ID'', data_type = ''int'', is_nullable = False, max_length = None,
     precision = Some ''10'', scale = Some ''0'', is_pk = True, is_identity = True\<rparr>]
   = Inr [''`ID` INT AUTO_INCREMENT NOT NULL'', ''PRIMARY KEY (`ID`)'']"
  by (simp add: mysql_col_defs_def mysql_col_def_def mysql_pk_cols_def mysql_pk_col_def
      num_pk_cols_def convert_type_mssql_to_mysql_def Let_def lower_int
      in_mapping_integer_family getitem_integer_family truthy_def)

text \<open>
  Claim C5, as stated, fails on the MySQL builder: for the table with the single key
  column \<open>ID int identity\<close> (one primary-key column, an identity column of the integer
  family) the column definition carries \<open>AUTO_INCREMENT\<close> but not the key, and the
  separate trailing \<open>PRIMARY KEY (`ID`)\<close> clause is still emitted.
\<close>

theorem mysql_single_key_keeps_trailing_clause:
  "filter is_pk [\<lparr>name = ''ID'', data_type = ''int'', is_nullable = False, max_length = None,
     precision = Some ''10'', scale = Some ''0'', is_pk = True, is_identity = True\<rparr>]
   = [\<lparr>name = ''ID'', data_type = ''int'', is_nullable = False, max_length = None,
     precision = Some ''10'', scale = Some ''0'', is_pk = True, is_identity = True\<rparr>] \<and>
   lower ''int'' \<in> set integer_family \<and>
   mysql_col_defs [\<lparr>name = ''ID'', data_type = ''int'', is_nullable = False, max_length = None,
     precision = Some ''10'', scale = Some ''0'', is_pk = True, is_identity = True\<rparr>]
   = Inr [''`ID` INT AUTO_INCREMENT NOT NULL'', ''PRIMARY KEY (`ID`)'']"
  using mysql_single_key_evaluated by (simp add: lower_int integer_family_def)

text \<open>
  Claim C5, amended. SQLite: a table whose only primary-key column is an identity column
  of the integer family gets \<open>PRIMARY KEY AUTOINCREMENT\<close> in that column's definition and
  no trailing key clause; a table with at least one primary-key column that is not a
  single identity key gets the trailing clause over its primary-key columns, in order.
  MySQL: every table with at least one primary-key column gets the trailing clause over
  its primary-key columns (each with its prefix length), and a single identity key column
  carries \<open>AUTO_INCREMENT\<close> in its definition as well.
\<close>

theorem primary_key_rendering:
  "(filter is_pk columns = [c] \<and> is_identity c \<and> lower (data_type c) \<in> set integer_family
      \<longrightarrow> sqlite_col_def columns c =
            Inr (''`'' @ name c @ ''` INTEGER PRIMARY KEY AUTOINCREMENT'') \<and>
          (\<exists>ds. sqlite_col_defs columns = Inr ds \<and> length ds = length columns \<and>
                traverse (sqlite_col_def columns) columns = Inr ds)) \<and>
   (filter is_pk columns \<noteq> [] \<and> \<not> (\<exists>k. filter is_pk columns = [k] \<and> is_identity k)
      \<longrightarrow> (\<exists>ds. traverse (sqlite_col_def columns) columns = Inr ds \<and>
                length ds = length columns \<and>
                sqlite_col_defs columns =
                  Inr (ds @ [''PRIMARY KEY ('' @
                             join '', '' (map (\<lambda>col. ''`'' @ name col @ ''`'')
                                           (filter is_pk columns)) @ '')'']))) \<and>
   (filter is_pk columns \<noteq> []
      \<longrightarrow> (\<exists>ds. traverse (mysql_col_def columns) columns = Inr ds \<and>
                length ds = length columns \<and>
                mysql_col_defs columns =
                  Inr (ds @ [''PRIMARY KEY ('' @
                             join '', '' (map mysql_pk_col (filter is_pk columns)) @ '')'']))) \<and>
   (filter is_pk columns = [c] \<and> is_identity c
      \<longrightarrow> (\<exists>t. convert_type_mssql_to_mysql (data_type c) (max_length c) (precision c)
                  (scale c) = Inr t \<and>
               mysql_col_def columns c =
                 Inr (''`'' @ name c @ ''` '' @ t @ '' AUTO_INCREMENT'' @
                      (if is_nullable c then [] else '' NOT NULL''))))"
proof (intro conjI impI)
  assume h: "filter is_pk columns = [c] \<and> is_identity c \<and>
             lower (data_type c) \<in> set integer_family"
  then show "sqlite_col_def columns c =
            Inr (''`'' @ name c @ ''` INTEGER PRIMARY KEY AUTOINCREMENT'')"
    using sqlite_single_autoincrement(1) by blast
  obtain ds where "traverse (sqlite_col_def columns) columns = Inr ds \<and>
      length ds = length columns"
    using traverse_total[of columns "sqlite_col_def columns"] sqlite_col_def_total by blast
  moreover have "sqlite_col_defs columns = traverse (sqlite_col_def columns) columns"
    using h sqlite_single_autoincrement(2) by blast
  ultimately show "\<exists>ds. sqlite_col_defs columns = Inr ds \<and> length ds = length columns \<and>
                traverse (sqlite_col_def columns) columns = Inr ds"
    by simp
next
  assume "filter is_pk columns \<noteq> [] \<and> \<not> (\<exists>k. filter is_pk columns = [k] \<and> is_identity k)"
  then show "\<exists>ds. traverse (sqlite_col_def columns) columns = Inr ds \<and>
                length ds = length columns \<and>
                sqlite_col_defs columns =
                  Inr (ds @ [''PRIMARY KEY ('' @
                             join '', '' (map (\<lambda>col. ''`'' @ name col @ ''`'')
                                           (filter is_pk columns)) @ '')''])"
    using sqlite_composite_key by blast
next
  assume "filter is_pk columns \<noteq> []"
  then show "\<exists>ds. traverse (mysql_col_def columns) columns = Inr ds \<and>
                length ds = length columns \<and>
                mysql_col_defs columns =
                  Inr (ds @ [''PRIMARY KEY ('' @
                             join '', '' (map mysql_pk_col (filter is_pk columns)) @ '')''])"
    by (rule mysql_key_clause)
next
  assume "filter is_pk columns = [c] \<and> is_identity c"
  then show "\<exists>t. convert_type_mssql_to_mysql (data_type c) (max_length c) (precision c)
                  (scale c) = Inr t \<and>
               mysql_col_def columns c =
                 Inr (''`'' @ name c @ ''` '' @ t @ '' AUTO_INCREMENT'' @
                      (if is_nullable c then [] else '' NOT NULL''))"
    using mysql_auto_increment by blast
qed

theorem primary_key_rendering_witness:
  "filter is_pk [\<lparr>name = ''ID'', data_type = ''int'', is_nullable = False, max_length = None,
     precision = Some ''10'', scale = Some ''0'', is_pk = True, is_identity = True\<rparr>]
   = [\<lparr>name = ''ID'', data_type = ''int'', is_nullable = False, max_length = None,
     precision = Some ''10'', scale = Some ''0'', is_pk = True, is_identity = True\<rparr>] \<and>
   lower ''int'' \<in> set integer_family \<and>
   sqlite_col_def [\<lparr>name = ''ID'', data_type = ''int'', is_nullable = False, max_length = None,
     precision = Some ''10'', scale = Some ''0'', is_pk = True, is_identity = True\<rparr>]
     \<lparr>name = ''ID'', data_type = ''int'', is_nullable = False, max_length = None,
     precision = Some ''10'', scale = Some ''0'', is_pk = True, is_identity = True\<rparr>
   = Inr ''`ID` INTEGER PRIMARY KEY AUTOINCREMENT'' \<and>
   (\<exists>ds. sqlite_col_defs [\<lparr>name = ''ID'', data_type = ''int'', is_nullable = False,
     max_length = None, precision = Some ''10'', scale = Some ''0'', is_pk = True,
     is_identity = True\<rparr>] = Inr ds \<and> length ds = 1) \<and>
   (\<exists>ds. mysql_col_defs [\<lparr>name = ''ID'', data_type = ''int'', is_nullable = False,
     max_length = None, precision = Some ''10'', scale = Some ''0'', is_pk = True,
     is_identity = True\<rparr>] = Inr (ds @ [''PRIMARY KEY (`ID`)'']) \<and> length ds = 1) \<and>
   filter is_pk [\<lparr>name = ''A'', data_type = ''int'', is_nullable = False, max_length = None,
     precision = None, scale = None, is_pk = True, is_identity = False\<rparr>,
     \<lparr>name = ''B'', data_type = ''date'', is_nullable = False, max_length = None,
     precision = None, scale = None, is_pk = True, is_identity = False\<rparr>] \<noteq> [] \<and>
   (\<exists>ds. sqlite_col_defs [\<lparr>name = ''A'', data_type = ''int'', is_nullable = False,
     max_length = None, precision = None, scale = None, is_pk = True, is_identity = False\<rparr>,
     \<lparr>name = ''B'', data_type = ''date'', is_nullable = False, max_length = None,
     precision = None, scale = None, is_pk = True, is_identity = False\<rparr>]
     = Inr (ds @ [''PRIMARY KEY (`A`, `B`)'']) \<and> length ds = 2)"
proof -
  let ?id = "\<lparr>name = ''ID'', data_type = ''int'', is_nullable = False, max_length = None,
     precision = Some ''10'', scale = Some ''0'', is_pk = True, is_identity = True\<rparr>"
  let ?a = "\<lparr>name = ''A'', data_type = ''int'', is_nullable = False, max_length = None,
     precision = None, scale = None, is_pk = True, is_identity = False\<rparr>"
  let ?b = "\<lparr>name = ''B'', data_type = ''date'', is_nullable = False, max_length = None,
     precision = None, scale = None, is_pk = True, is_identity = False\<rparr>"
  have f1: "filter is_pk [?id] = [?id]" by simp
  have i1: "is_identity ?id" by simp
  have l1: "lower (data_type ?id) \<in> set integer_family"
    by (simp add: lower_int integer_family_def)
  have f2: "filter is_pk [?a, ?b] = [?a, ?b]" by simp
  have n2: "filter is_pk [?a, ?b] \<noteq> [] \<and>
            \<not> (\<exists>k. filter is_pk [?a, ?b] = [k] \<and> is_identity k)"
    by simp
  have pm: "mysql_pk_col ?id = ''`ID`''"
    by (simp add: mysql_pk_col_def Let_def lower_int truthy_def)
  note t1 = primary_key_rendering [of "[?id]" ?id]
  note t2 = primary_key_rendering [of "[?a, ?b]" ?a]
  have c1: "sqlite_col_def [?id] ?id = Inr ''`ID` INTEGER PRIMARY KEY AUTOINCREMENT''"
    using t1 f1 i1 l1 by simp
  have c2: "\<exists>ds. sqlite_col_defs [?id] = Inr ds \<and> length ds = 1"
    using t1 f1 i1 l1 by auto
  have c3: "\<exists>ds. mysql_col_defs [?id] = Inr (ds @ [''PRIMARY KEY (`ID`)'']) \<and> length ds = 1"
    using t1 f1 pm by auto
  have c4: "\<exists>ds. sqlite_col_defs [?a, ?b] = Inr (ds @ [''PRIMARY KEY (`A`, `B`)'']) \<and>
                 length ds = 2"
    using t2 n2 f2 by auto
  show ?thesis using f1 l1 c1 c2 c3 c4 n2 by simp
qed

section \<open>Rendering one field as a literal\<close>

text \<open>
  The three batch functions turn each field of a row into the text of a literal. The
  field is stripped first. \<^verbatim>\<open>float(val)\<close> is the interpreter's; \<open>float_ok val\<close> says
  that it does not raise, and is a parameter of the model.
\<close>

definition upper_char :: "char \<Rightarrow> char" where
  "upper_char c =
     (case map_of (zip ''abcdefghijklmnopqrstuvwxyz'' ''ABCDEFGHIJKLMNOPQRSTUVWXYZ'') c of
        Some u \<Rightarrow> u | None \<Rightarrow> c)"

definition upper :: "string \<Rightarrow> string" where
  "upper s = map upper_char s"

text \<open>\<^verbatim>\<open>val.replace("'", "''").replace('\\', '\\\\')\<close>, the PostgreSQL path.\<close>

definition val_escaped_pg :: "string \<Rightarrow> string" where
  "val_escaped_pg val = replace BACKSLASH [BACKSLASH, BACKSLASH] (replace QUOTE [QUOTE, QUOTE] val)"

text \<open>\<^verbatim>\<open>val.replace("\\", "\\\\").replace("'", "''")\<close>, the MySQL and SQLite paths.\<close>

definition val_escaped_mysql :: "string \<Rightarrow> string" where
  "val_escaped_mysql val =
     replace QUOTE [QUOTE, QUOTE] (replace BACKSLASH [BACKSLASH, BACKSLASH] val)"

definition quoted :: "string \<Rightarrow> string" where
  "quoted s = [QUOTE] @ s @ [QUOTE]"

definition pg_value :: "(string \<Rightarrow> bool) \<Rightarrow> column \<Rightarrow> string \<Rightarrow> string" where
  "pg_value float_ok col val0 =
     (let val = strip val0; dt = lower (data_type col) in
      if val = ''NULL'' \<or> val = [] then ''NULL''
      else if dt = ''xml'' then quoted (val_escaped_pg val)
      else if dt \<in> set [''varchar'', ''nvarchar'', ''char'', ''nchar'', ''text'', ''ntext'',
                          ''datetime'', ''datetime2'', ''date'', ''time'', ''uniqueidentifier'']
        then quoted (val_escaped_pg val)
      else if dt = ''bit'' then
        (if val = ''1'' \<or> lower val = ''true'' then ''TRUE'' else ''FALSE'')
      else if dt \<in> set [''int'', ''bigint'', ''smallint'', ''tinyint''] then
        (case py_int val of Inl e \<Rightarrow> ''NULL'' | Inr n \<Rightarrow> val)
      else if dt \<in> set [''decimal'', ''numeric'', ''money'', ''smallmoney'', ''float'', ''real'']
        then (if float_ok val then val else ''NULL'')
      else if dt \<in> set [''varbinary'', ''image'', ''timestamp'']
        then quoted (val_escaped_pg val) @ ''::BYTEA''
      else quoted (val_escaped_pg val))"

text \<open>
  The hexadecimal digits of a binary field that is not empty: \<^verbatim>\<open>hex_val_clean\<close> of the
  branch for a \<open>0x\<close> prefix and of the branch without one.
\<close>

definition hex_val_clean :: "string \<Rightarrow> string" where
  "hex_val_clean val =
     (if startswith val ''0x''
      then filter (\<lambda>c. c \<in> set ''0123456789ABCDEF'') (strip (upper (drop 2 val)))
      else filter (\<lambda>c. c \<in> set ''0123456789ABCDEF'') (strip (upper val)))"

text \<open>
  The NULL test of the MySQL and SQLite paths, for a field that is empty or \<open>NULL\<close>.
\<close>

definition empty_value :: "column \<Rightarrow> string" where
  "empty_value col =
     (if \<not> is_nullable col then
        (if lower (data_type col) \<in> set [''varchar'', ''nvarchar'', ''char'', ''nchar'',
               ''text'', ''ntext'', ''uniqueidentifier'', ''hierarchyid'']
         then [QUOTE, QUOTE]
         else if lower (data_type col) \<in> set [''datetime'', ''datetime2'', ''date'', ''time'']
         then ''NULL''
         else ''NULL'')
      else ''NULL'')"

definition mysql_value :: "(string \<Rightarrow> bool) \<Rightarrow> column \<Rightarrow> string \<Rightarrow> string" where
  "mysql_value float_ok col val0 =
     (let val = strip val0; dt = lower (data_type col) in
      if val = ''NULL'' \<or> val = [] then empty_value col
      else if dt = ''xml'' then quoted (val_escaped_mysql val)
      else if dt = ''hierarchyid'' then quoted (val_escaped_mysql (strip val))
      else if dt \<in> set [''datetime'', ''datetime2'', ''date'', ''time'']
        then (if val \<noteq> [] \<and> val \<noteq> ''NULL'' \<and> strip val \<noteq> []
              then quoted (val_escaped_mysql val) else ''NULL'')
      else if dt \<in> set [''varchar'', ''nvarchar'', ''char'', ''nchar'', ''text'', ''ntext'',
                          ''uniqueidentifier'']
        then quoted (val_escaped_mysql val)
      else if dt = ''bit'' then (if val = ''1'' \<or> lower val = ''true'' then ''1'' else ''0'')
      else if dt \<in> set [''int'', ''bigint'', ''smallint'', ''tinyint''] then
        (case py_int val of Inl e \<Rightarrow> ''NULL'' | Inr n \<Rightarrow> val)
      else if dt \<in> set [''decimal'', ''numeric'', ''money'', ''smallmoney'', ''float'', ''real'']
        then (if float_ok val then val else ''NULL'')
      else if dt \<in> set [''varbinary'', ''image''] then
        (if hex_val_clean val \<noteq> [] then ''UNHEX('' @ quoted (hex_val_clean val) @ '')''
         else ''NULL'')
      else if dt = ''timestamp'' then
        (if hex_val_clean val \<noteq> [] then ''UNHEX('' @ quoted (hex_val_clean val) @ '')''
         else ''NULL'')
      else quoted (val_escaped_mysql val))"

definition sqlite_value :: "(string \<Rightarrow> bool) \<Rightarrow> column \<Rightarrow> string \<Rightarrow> string" where
  "sqlite_value float_ok col val0 =
     (let val = strip val0; dt = lower (data_type col) in
      if val = ''NULL'' \<or> val = [] then empty_value col
      else if dt = ''xml'' then quoted (val_escaped_mysql val)
      else if dt = ''hierarchyid'' then quoted (val_escaped_mysql (strip val))
      else if dt \<in> set [''datetime'', ''datetime2'', ''date'', ''time'']
        then (if val \<noteq> [] \<and> val \<noteq> ''NULL'' \<and> strip val \<noteq> []
              then quoted (val_escaped_mysql val) else ''NULL'')
      else if dt \<in> set [''varchar'', ''nvarchar'', ''char'', ''nchar'', ''text'', ''ntext'',
                          ''uniqueidentifier'']
        then quoted (val_escaped_mysql val)
      else if dt = ''bit'' then (if val = ''1'' \<or> lower val = ''true'' then ''1'' else ''0'')
      else if dt \<in> set [''int'', ''bigint'', ''smallint'', ''tinyint''] then
        (case py_int val of Inl e \<Rightarrow> ''NULL'' | Inr n \<Rightarrow> val)
      else if dt \<in> set [''decimal'', ''numeric'', ''money'', ''smallmoney'', ''float'', ''real'']
        then (if float_ok val then val else ''NULL'')
      else if dt \<in> set [''varbinary'', ''image''] then
        (if hex_val_clean val \<noteq> [] then ''X'' @ quoted (hex_val_clean val) else ''NULL'')
      else if dt = ''timestamp'' then
        (if hex_val_clean val \<noteq> [] then ''X'' @ quoted (hex_val_clean val) else ''NULL'')
      else quoted (val_escaped_mysql val))"

text \<open>
  Modelled from the spec: the readers of a string literal, which the repository does not
  hold (it renders literals and never reads one back). The round trip is about each
  dialect's own reading of a literal, so there is one reader per dialect. All three take
  a literal in single quotes and read two single quotes inside it as one. The MySQL
  reader also takes the backslash as an escape character: two backslashes stand for one
  (a backslash before any other character is not modelled). The SQLite reader, and the
  PostgreSQL reader with standard-conforming strings, know no backslash escape: every
  backslash stands for itself. A lone quote inside the literal and a missing closing
  quote are errors.
\<close>

fun read_body_escaped :: "string \<Rightarrow> string option" where
  "read_body_escaped [] = None"
| "read_body_escaped [c] = (if c = QUOTE then Some [] else None)"
| "read_body_escaped (c # d # ds) =
     (if c = QUOTE then
        (if d = QUOTE then map_option ((#) QUOTE) (read_body_escaped ds) else None)
      else if c = BACKSLASH then
        (if d = BACKSLASH then map_option ((#) BACKSLASH) (read_body_escaped ds) else None)
      else map_option ((#) c) (read_body_escaped (d # ds)))"

fun read_body_plain :: "string \<Rightarrow> string option" where
  "read_body_plain [] = None"
| "read_body_plain [c] = (if c = QUOTE then Some [] else None)"
| "read_body_plain (c # d # ds) =
     (if c = QUOTE then
        (if d = QUOTE then map_option ((#) QUOTE) (read_body_plain ds) else None)
      else map_option ((#) c) (read_body_plain (d # ds)))"

definition read_literal_mysql :: "string \<Rightarrow> string option" where
  "read_literal_mysql s =
     (case s of [] \<Rightarrow> None | c # cs \<Rightarrow> if c = QUOTE then read_body_escaped cs else None)"

definition read_literal_pg :: "string \<Rightarrow> string option" where
  "read_literal_pg s =
     (case s of [] \<Rightarrow> None | c # cs \<Rightarrow> if c = QUOTE then read_body_plain cs else None)"

definition read_literal_sqlite :: "string \<Rightarrow> string option" where
  "read_literal_sqlite s =
     (case s of [] \<Rightarrow> None | c # cs \<Rightarrow> if c = QUOTE then read_body_plain cs else None)"

subsection \<open>Properties of the literals\<close>


lemma replace_Cons: "replace c r (x # xs) = (if x = c then r else [x]) @ replace c r xs"
  by (simp add: replace_def)

lemma replace_Nil: "replace c r [] = []"
  by (simp add: replace_def)

lemma replace_append: "replace c r (xs @ ys) = replace c r xs @ replace c r ys"
  by (simp add: replace_def)

lemma val_escaped_pg_Cons:
  "val_escaped_pg (x # xs) =
     (if x = QUOTE then [QUOTE, QUOTE] else if x = BACKSLASH then [BACKSLASH, BACKSLASH] else [x])
     @ val_escaped_pg xs"
  by (simp add: val_escaped_pg_def replace_Cons replace_append replace_Nil)

lemma val_escaped_mysql_Cons:
  "val_escaped_mysql (x # xs) =
     (if x = QUOTE then [QUOTE, QUOTE] else if x = BACKSLASH then [BACKSLASH, BACKSLASH] else [x])
     @ val_escaped_mysql xs"
  by (simp add: val_escaped_mysql_def replace_Cons replace_append replace_Nil)

lemma read_body_escaped_other:
  "c \<noteq> QUOTE \<Longrightarrow> c \<noteq> BACKSLASH \<Longrightarrow> rest \<noteq> [] \<Longrightarrow>
     read_body_escaped (c # rest) = map_option ((#) c) (read_body_escaped rest)"
  by (cases rest) simp_all

lemma read_body_plain_other:
  "c \<noteq> QUOTE \<Longrightarrow> rest \<noteq> [] \<Longrightarrow>
     read_body_plain (c # rest) = map_option ((#) c) (read_body_plain rest)"
  by (cases rest) simp_all

lemma read_body_escaped_mysql: "read_body_escaped (val_escaped_mysql s @ [QUOTE]) = Some s"
proof (induction s)
  case Nil
  then show ?case by (simp add: val_escaped_mysql_def replace_Nil)
next
  case (Cons x xs)
  then show ?case by (simp add: val_escaped_mysql_Cons read_body_escaped_other)
qed

text \<open>
  Under the reader without backslash escapes the escaped text reads back as the value
  with every backslash doubled.
\<close>

lemma read_body_plain_mysql:
  "read_body_plain (val_escaped_mysql s @ [QUOTE]) =
     Some (replace BACKSLASH [BACKSLASH, BACKSLASH] s)"
proof (induction s)
  case Nil
  then show ?case by (simp add: val_escaped_mysql_def replace_Nil)
next
  case (Cons x xs)
  then show ?case by (simp add: val_escaped_mysql_Cons read_body_plain_other replace_Cons)
qed

lemma read_body_plain_pg:
  "read_body_plain (val_escaped_pg s @ [QUOTE]) =
     Some (replace BACKSLASH [BACKSLASH, BACKSLASH] s)"
proof (induction s)
  case Nil
  then show ?case by (simp add: val_escaped_pg_def replace_Nil)
next
  case (Cons x xs)
  then show ?case by (simp add: val_escaped_pg_Cons read_body_plain_other replace_Cons)
qed

lemma mysql_literal_reads_back:
  "read_literal_mysql (quoted (val_escaped_mysql s)) = Some s"
  by (simp add: read_literal_mysql_def quoted_def read_body_escaped_mysql)

lemma sqlite_literal_reads_doubled:
  "read_literal_sqlite (quoted (val_escaped_mysql s)) =
     Some (replace BACKSLASH [BACKSLASH, BACKSLASH] s)"
  by (simp add: read_literal_sqlite_def quoted_def read_body_plain_mysql)

lemma pg_literal_reads_doubled:
  "read_literal_pg (quoted (val_escaped_pg s)) =
     Some (replace BACKSLASH [BACKSLASH, BACKSLASH] s)"
  by (simp add: read_literal_pg_def quoted_def read_body_plain_pg)

lemma strip_empty: "strip [] = []"
  by (simp add: strip_def lstrip_def rstrip_def)

lemma character_family_cases:
  assumes "dt \<in> set [''varchar'', ''nvarchar'', ''char'', ''nchar'', ''text'', ''ntext'']"
  obtains "dt = ''varchar''" | "dt = ''nvarchar''" | "dt = ''char''" | "dt = ''nchar''"
        | "dt = ''text''" | "dt = ''ntext''"
proof -
  from assms have "dt = ''varchar'' \<or> dt = ''nvarchar'' \<or> dt = ''char'' \<or> dt = ''nchar'' \<or>
      dt = ''text'' \<or> dt = ''ntext''"
    by (simp only: list.set insert_iff empty_iff simp_thms)
  then show thesis using that by (elim disjE)
qed

lemma pg_value_character:
  assumes "lower (data_type col) \<in> set [''varchar'', ''nvarchar'', ''char'', ''nchar'',
             ''text'', ''ntext'']"
      and "strip val \<noteq> []" and "strip val \<noteq> ''NULL''"
  shows "pg_value float_ok col val = quoted (val_escaped_pg (strip val))"
  using assms(1)
  by (rule character_family_cases) (simp_all add: pg_value_def Let_def assms(2,3))

lemma mysql_value_character:
  assumes "lower (data_type col) \<in> set [''varchar'', ''nvarchar'', ''char'', ''nchar'',
             ''text'', ''ntext'']"
      and "strip val \<noteq> []" and "strip val \<noteq> ''NULL''"
  shows "mysql_value float_ok col val = quoted (val_escaped_mysql (strip val))"
  using assms(1)
  by (rule character_family_cases) (simp_all add: mysql_value_def Let_def assms(2,3))

lemma sqlite_value_character:
  assumes "lower (data_type col) \<in> set [''varchar'', ''nvarchar'', ''char'', ''nchar'',
             ''text'', ''ntext'']"
      and "strip val \<noteq> []" and "strip val \<noteq> ''NULL''"
  shows "sqlite_value float_ok col val = quoted (val_escaped_mysql (strip val))"
  using assms(1)
  by (rule character_family_cases) (simp_all add: sqlite_value_def Let_def assms(2,3))

text \<open>
  On the MySQL path the round trip holds for every value of a character column, read
  with MySQL's own reader.
\<close>

lemma mysql_rendered_literal_reads_back:
  assumes "lower (data_type col) \<in> set [''varchar'', ''nvarchar'', ''char'', ''nchar'',
             ''text'', ''ntext'']"
      and "strip val = val" and "val \<noteq> []" and "val \<noteq> ''NULL''"
  shows "read_literal_mysql (mysql_value float_ok col val) = Some val"
proof -
  from assms(2,3,4) have s: "strip val \<noteq> []" "strip val \<noteq> ''NULL''" by simp_all
  have "mysql_value float_ok col val = quoted (val_escaped_mysql val)"
    using mysql_value_character[OF assms(1) s] assms(2) by simp
  then show ?thesis by (simp add: mysql_literal_reads_back)
qed

text \<open>
  Claim C4 fails on the SQLite and PostgreSQL paths. For the column \<open>Name nvarchar(50)\<close>
  and the value \<open>O'Neil\x\<close> (one quote, one backslash) all three paths render the
  literal with the quote doubled and the backslash doubled. MySQL reads it back as the
  value. SQLite and PostgreSQL, which take a backslash as an ordinary character, read it
  back with two backslashes: not the original string.
\<close>

theorem doubled_backslash_is_not_read_back:
  "sqlite_value float_ok \<lparr>name = ''Name'', data_type = ''nvarchar'', is_nullable = False,
     max_length = Some ''50'', precision = None, scale = None, is_pk = False,
     is_identity = False\<rparr> (''O'' @ [QUOTE] @ ''Neil'' @ [BACKSLASH] @ ''x'') =
     [QUOTE] @ ''O'' @ [QUOTE, QUOTE] @ ''Neil'' @ [BACKSLASH, BACKSLASH] @ ''x'' @ [QUOTE] \<and>
   read_literal_sqlite (sqlite_value float_ok \<lparr>name = ''Name'', data_type = ''nvarchar'',
     is_nullable = False, max_length = Some ''50'', precision = None, scale = None,
     is_pk = False, is_identity = False\<rparr> (''O'' @ [QUOTE] @ ''Neil'' @ [BACKSLASH] @ ''x''))
     = Some (''O'' @ [QUOTE] @ ''Neil'' @ [BACKSLASH, BACKSLASH] @ ''x'') \<and>
   read_literal_pg (pg_value float_ok \<lparr>name = ''Name'', data_type = ''nvarchar'',
     is_nullable = False, max_length = Some ''50'', precision = None, scale = None,
     is_pk = False, is_identity = False\<rparr> (''O'' @ [QUOTE] @ ''Neil'' @ [BACKSLASH] @ ''x''))
     = Some (''O'' @ [QUOTE] @ ''Neil'' @ [BACKSLASH, BACKSLASH] @ ''x'') \<and>
   read_literal_mysql (mysql_value float_ok \<lparr>name = ''Name'', data_type = ''nvarchar'',
     is_nullable = False, max_length = Some ''50'', precision = None, scale = None,
     is_pk = False, is_identity = False\<rparr> (''O'' @ [QUOTE] @ ''Neil'' @ [BACKSLASH] @ ''x''))
     = Some (''O'' @ [QUOTE] @ ''Neil'' @ [BACKSLASH] @ ''x'') \<and>
   ''O'' @ [QUOTE] @ ''Neil'' @ [BACKSLASH, BACKSLASH] @ ''x'' \<noteq>
   ''O'' @ [QUOTE] @ ''Neil'' @ [BACKSLASH] @ ''x''"
proof -
  let ?col = "\<lparr>name = ''Name'', data_type = ''nvarchar'', is_nullable = False,
     max_length = Some ''50'', precision = None, scale = None, is_pk = False,
     is_identity = False\<rparr>"
  let ?val = "''O'' @ [QUOTE] @ ''Neil'' @ [BACKSLASH] @ ''x''"
  let ?doubled = "''O'' @ [QUOTE] @ ''Neil'' @ [BACKSLASH, BACKSLASH] @ ''x''"
  have l: "lower ''nvarchar'' = ''nvarchar''" by (simp add: lower_def lower_char_def)
  have h1: "lower (data_type ?col)
              \<in> set [''varchar'', ''nvarchar'', ''char'', ''nchar'', ''text'', ''ntext'']"
    by (simp add: l)
  have h4: "strip ?val = ?val" by (simp add: strip_def lstrip_def rstrip_def isspace_def)
  have s: "strip ?val \<noteq> []" "strip ?val \<noteq> ''NULL''" unfolding h4 by simp_all
  have d: "replace BACKSLASH [BACKSLASH, BACKSLASH] ?val = ?doubled"
    by (simp add: replace_def)
  have vs: "sqlite_value float_ok ?col ?val = quoted (val_escaped_mysql ?val)"
    using sqlite_value_character[OF h1 s, of float_ok] by (simp only: h4)
  have vm: "mysql_value float_ok ?col ?val = quoted (val_escaped_mysql ?val)"
    using mysql_value_character[OF h1 s, of float_ok] by (simp only: h4)
  have vp: "pg_value float_ok ?col ?val = quoted (val_escaped_pg ?val)"
    using pg_value_character[OF h1 s, of float_ok] by (simp only: h4)
  have e: "quoted (val_escaped_mysql ?val) =
     [QUOTE] @ ''O'' @ [QUOTE, QUOTE] @ ''Neil'' @ [BACKSLASH, BACKSLASH] @ ''x'' @ [QUOTE]"
    by (simp add: quoted_def val_escaped_mysql_def replace_def)
  have r1: "read_literal_sqlite (sqlite_value float_ok ?col ?val) = Some ?doubled"
    by (simp only: vs sqlite_literal_reads_doubled d)
  have r2: "read_literal_pg (pg_value float_ok ?col ?val) = Some ?doubled"
    by (simp only: vp pg_literal_reads_doubled d)
  have r3: "read_literal_mysql (mysql_value float_ok ?col ?val) = Some ?val"
    by (simp only: vm mysql_literal_reads_back)
  have ne: "?doubled \<noteq> ?val" by simp
  from vs e have v: "sqlite_value float_ok ?col ?val =
     [QUOTE] @ ''O'' @ [QUOTE, QUOTE] @ ''Neil'' @ [BACKSLASH, BACKSLASH] @ ''x'' @ [QUOTE]"
    by (simp only:)
  from v r1 r2 r3 ne show ?thesis by (intro conjI)
qed

lemma empty_field_mysql:
  assumes "strip val = [] \<or> strip val = ''NULL''"
  shows "mysql_value float_ok col val = empty_value col"
proof -
  from assms have c: "strip val = ''NULL'' \<or> strip val = []" by blast
  show ?thesis unfolding mysql_value_def Let_def using c by (simp only: if_True)
qed

lemma empty_field_sqlite:
  assumes "strip val = [] \<or> strip val = ''NULL''"
  shows "sqlite_value float_ok col val = empty_value col"
proof -
  from assms have c: "strip val = ''NULL'' \<or> strip val = []" by blast
  show ?thesis unfolding sqlite_value_def Let_def using c by (simp only: if_True)
qed

lemma empty_field_pg:
  assumes "strip val = [] \<or> strip val = ''NULL''"
  shows "pg_value float_ok col val = ''NULL''"
proof -
  from assms have c: "strip val = ''NULL'' \<or> strip val = []" by blast
  show ?thesis unfolding pg_value_def Let_def using c by (simp only: if_True)
qed

text \<open>
  Claim C2 fails on the PostgreSQL path. For the column \<open>Name nvarchar(50) NOT NULL\<close> and
  an empty field, \<^verbatim>\<open>copy_data_mssql_to_pg_alternative\<close> renders \<open>NULL\<close>, where the MySQL
  and SQLite paths render the empty string literal.
\<close>

theorem pg_renders_NULL_for_required_text:
  "pg_value float_ok \<lparr>name = ''Name'', data_type = ''nvarchar'', is_nullable = False,
     max_length = Some ''50'', precision = None, scale = None, is_pk = False,
     is_identity = False\<rparr> [] = ''NULL'' \<and>
   mysql_value float_ok \<lparr>name = ''Name'', data_type = ''nvarchar'', is_nullable = False,
     max_length = Some ''50'', precision = None, scale = None, is_pk = False,
     is_identity = False\<rparr> [] = [QUOTE, QUOTE] \<and>
   sqlite_value float_ok \<lparr>name = ''Name'', data_type = ''nvarchar'', is_nullable = False,
     max_length = Some ''50'', precision = None, scale = None, is_pk = False,
     is_identity = False\<rparr> [] = [QUOTE, QUOTE]"
proof -
  have l: "lower ''nvarchar'' = ''nvarchar''" by (simp add: lower_def lower_char_def)
  show ?thesis
    by (simp add: empty_field_pg empty_field_mysql empty_field_sqlite strip_empty
        empty_value_def l)
qed

section \<open>Reading the rows of a page\<close>

text \<open>
  The output of one page query is text: one row per line, fields separated by tabs.
  \<open>n\<close> is \<^verbatim>\<open>len(col_names)\<close>.
\<close>

subsection \<open>The MySQL and SQLite paths\<close>

definition data_line_ok :: "string \<Rightarrow> bool" where
  "data_line_ok line_stripped \<longleftrightarrow>
     line_stripped \<noteq> [] \<and> \<not> startswith line_stripped ''('' \<and>
     \<not> startswith line_stripped ''-'' \<and>
     \<not> contains (lower line_stripped) ''rows affected'' \<and>
     \<not> contains (lower line_stripped) ''column''"

text \<open>
  The loop over the physical lines, with its two variables \<open>lines\<close> and \<open>current_line\<close>;
  at the end of the input a pending \<open>current_line\<close> is stripped and appended.
\<close>

fun reassemble_lines :: "nat \<Rightarrow> string list \<Rightarrow> string \<Rightarrow> string list \<Rightarrow> string list" where
  "reassemble_lines n lines current_line [] =
     (if current_line \<noteq> [] then lines @ [strip current_line] else lines)"
| "reassemble_lines n lines current_line (line # rest) =
     (let line_stripped = strip line in
      if data_line_ok line_stripped then
        (if int (count_list line_stripped TAB) < int n - 1
         then reassemble_lines n lines (current_line @ line_stripped @ '' '') rest
         else if current_line \<noteq> []
         then reassemble_lines n (lines @ [current_line @ line_stripped]) [] rest
         else reassemble_lines n (lines @ [line_stripped]) [] rest)
      else reassemble_lines n lines current_line rest)"

definition cleaned_part :: "string \<Rightarrow> string" where
  "cleaned_part p = (let part_stripped = strip p in
                     if part_stripped = ''[EMPTY]'' then [] else part_stripped)"

definition cleaned_parts :: "nat \<Rightarrow> string \<Rightarrow> string list" where
  "cleaned_parts n line =
     (let parts = split TAB line;
          parts' = (if length parts < n then parts @ replicate (n - length parts) []
                    else if length parts > n then take n parts
                    else parts)
      in map cleaned_part parts')"

definition rows_of_lines :: "nat \<Rightarrow> string list \<Rightarrow> string list list" where
  "rows_of_lines n lines =
     filter (\<lambda>parts. length parts = n) (map (cleaned_parts n) (filter (\<lambda>line. line \<noteq> []) lines))"

definition parse_rows :: "nat \<Rightarrow> string \<Rightarrow> string list list" where
  "parse_rows n data_result = rows_of_lines n (reassemble_lines n [] [] (split NEWLINE data_result))"

subsection \<open>The PostgreSQL path\<close>

definition parse_rows_pg :: "nat \<Rightarrow> string \<Rightarrow> string list list" where
  "parse_rows_pg n data_result =
     (let lines = map strip (filter (\<lambda>l. strip l \<noteq> [] \<and> \<not> startswith l ''('' \<and>
                                          \<not> startswith l ''-'')
                               (split NEWLINE data_result))
      in map (\<lambda>line. map strip (take n (split TAB line)))
           (filter (\<lambda>line. line \<noteq> [] \<and> \<not> contains (lower line) ''rows affected'' \<and>
                             \<not> contains (lower line) ''column'' \<and>
                             length (split TAB line) \<ge> n)
              lines))"

subsection \<open>Properties of the reassembly\<close>


lemma split_no_sep: "sep \<notin> set s \<Longrightarrow> split sep s = [s]"
  by (induction s) auto

lemma split_at_sep: "sep \<notin> set a \<Longrightarrow> split sep (a @ sep # b) = a # split sep b"
  by (induction a) auto







lemma lstrip_id: "s \<noteq> [] \<Longrightarrow> \<not> isspace (hd s) \<Longrightarrow> lstrip s = s"
  by (cases s) (simp_all add: lstrip_def)

lemma rstrip_id: "s \<noteq> [] \<Longrightarrow> \<not> isspace (last s) \<Longrightarrow> rstrip s = s"
proof -
  assume a: "s \<noteq> []" "\<not> isspace (last s)"
  then have "rev s \<noteq> []" "\<not> isspace (hd (rev s))" by (simp_all add: hd_rev)
  then have "dropWhile isspace (rev s) = rev s" by (cases "rev s") simp_all
  then show ?thesis by (simp add: rstrip_def)
qed
























section \<open>The transfer of one table\<close>

text \<open>
  The target database is reached through \<^verbatim>\<open>run_sql_postgresql\<close>, \<^verbatim>\<open>run_sql_mysql\<close> or
  \<^verbatim>\<open>run_sql_sqlite\<close>: a statement goes in, output text and a status code come back.
  The model keeps the list of the statements sent to the target so far, and takes the
  target's answer to a statement, after those sent before, as given.

  The source database is only read, and no query is sent to it twice during one
  transfer, so its answers are given too: the four metadata results, the result of the
  row count, and the result of the page query at each offset.
\<close>

type_synonym target = "string list \<Rightarrow> string \<Rightarrow> sql_result"

record source =
  meta_columns :: sql_result
  meta_pk :: sql_result
  meta_identity :: sql_result
  meta_computed :: sql_result
  row_count :: sql_result
  page :: "nat \<Rightarrow> sql_result"

definition run_sql :: "target \<Rightarrow> string list \<Rightarrow> string \<Rightarrow> sql_result \<times> string list" where
  "run_sql tgt trace query = (tgt trace query, trace @ [query])"

abbreviation DQUOTE :: char where "DQUOTE \<equiv> CHR 0x22"

definition batch_size :: nat where "batch_size = 1000"

definition insert_batch_size :: nat where "insert_batch_size = 200"

text \<open>
  \<^verbatim>\<open>for batch_start in range(0, len(batch_values), insert_batch_size)\<close> with the slice
  \<^verbatim>\<open>batch_values[batch_start:batch_end]\<close>: the chunks in order.
\<close>

definition insert_batches :: "'a list \<Rightarrow> 'a list list" where
  "insert_batches batch_values =
     map (\<lambda>b. take insert_batch_size (drop (b * insert_batch_size) batch_values))
       [0 ..< (length batch_values + (insert_batch_size - 1)) div insert_batch_size]"

text \<open>
  The first line of a count result that is all digits, as a number; 0 when there is
  none. (\<^verbatim>\<open>int\<close> cannot fail on such a line, see \<open>py_int_isdigit\<close> below.)
\<close>

definition first_count :: "string \<Rightarrow> nat" where
  "first_count result =
     (case filter isdigit (map strip (split NEWLINE result)) of
        [] \<Rightarrow> 0
      | line # _ \<Rightarrow> (case py_int line of Inl e \<Rightarrow> 0 | Inr k \<Rightarrow> nat k))"

subsection \<open>PostgreSQL\<close>

definition pg_table :: "string \<Rightarrow> string \<Rightarrow> string" where
  "pg_table target_schema target_table =
     [DQUOTE] @ target_schema @ [DQUOTE] @ ''.'' @ [DQUOTE] @ target_table @ [DQUOTE]"

definition pg_values :: "(string \<Rightarrow> bool) \<Rightarrow> column list \<Rightarrow> string list \<Rightarrow> string list" where
  "pg_values float_ok columns row =
     map (\<lambda>i. pg_value float_ok (columns ! i) (if i < length row then row ! i else []))
       [0 ..< length columns]"

definition pg_batch_values ::
  "(string \<Rightarrow> bool) \<Rightarrow> column list \<Rightarrow> string list list \<Rightarrow> string list" where
  "pg_batch_values float_ok columns rows =
     map (\<lambda>values. ''('' @ join '', '' values @ '')'')
       (filter (\<lambda>values. length values = length columns)
          (map (pg_values float_ok columns) rows))"

definition on_conflict_clause :: "column list \<Rightarrow> string" where
  "on_conflict_clause columns =
     (let pk_cols_quoted = map (\<lambda>col. [DQUOTE] @ name col @ [DQUOTE]) (filter is_pk columns) in
      if pk_cols_quoted \<noteq> []
      then '' ON CONFLICT ('' @ join '', '' pk_cols_quoted @ '') DO NOTHING''
      else [])"

definition pg_insert_query :: "string \<Rightarrow> string \<Rightarrow> column list \<Rightarrow> string list \<Rightarrow> string" where
  "pg_insert_query target_schema target_table columns batch_insert_values =
     ''INSERT INTO '' @ pg_table target_schema target_table @ '' ('' @
     join '', '' (map (\<lambda>col. [DQUOTE] @ name col @ [DQUOTE]) columns) @ '')'' @
     (if list_ex is_identity columns then '' OVERRIDING SYSTEM VALUE'' else []) @
     '' VALUES '' @ join '', '' batch_insert_values @ on_conflict_clause columns @ '';''"

text \<open>
  The inner loop over the chunks of one page. Its \<^verbatim>\<open>continue\<close> belongs to this loop, so
  after an unrecognised error the offset is advanced and the next chunk follows.
\<close>

fun pg_insert_loop ::
  "target \<Rightarrow> string \<Rightarrow> string \<Rightarrow> column list \<Rightarrow> nat \<Rightarrow> nat \<Rightarrow> string list \<Rightarrow>
   string list list \<Rightarrow> nat \<times> nat \<times> string list" where
  "pg_insert_loop tgt ts tt columns offset copied_count trace [] = (offset, copied_count, trace)"
| "pg_insert_loop tgt ts tt columns offset copied_count trace (batch_insert_values # rest) =
     (case run_sql tgt trace (pg_insert_query ts tt columns batch_insert_values) of
        ((insert_result, insert_code), trace') \<Rightarrow>
          if insert_code \<noteq> 0 \<and> \<not> contains (lower insert_result) ''duplicate key'' \<and>
             \<not> contains (lower insert_result) ''conflict''
          then pg_insert_loop tgt ts tt columns (offset + batch_size) copied_count trace' rest
          else pg_insert_loop tgt ts tt columns offset
                 (copied_count + length batch_insert_values) trace' rest)"

lemma pg_insert_loop_Cons:
  "pg_insert_loop tgt ts tt columns offset copied_count trace (c # rest) =
     (if snd (tgt trace (pg_insert_query ts tt columns c)) \<noteq> 0 \<and>
         \<not> contains (lower (fst (tgt trace (pg_insert_query ts tt columns c)))) ''duplicate key'' \<and>
         \<not> contains (lower (fst (tgt trace (pg_insert_query ts tt columns c)))) ''conflict''
      then pg_insert_loop tgt ts tt columns (offset + batch_size) copied_count
             (trace @ [pg_insert_query ts tt columns c]) rest
      else pg_insert_loop tgt ts tt columns offset (copied_count + length c)
             (trace @ [pg_insert_query ts tt columns c]) rest)"
  by (simp add: run_sql_def split: prod.split)

lemma pg_insert_loop_offset:
  "offset \<le> fst (pg_insert_loop tgt ts tt columns offset copied_count trace chunks)"
proof (induction chunks arbitrary: offset copied_count trace)
  case Nil
  then show ?case by simp
next
  case (Cons c chunks)
  have "offset \<le> fst (pg_insert_loop tgt ts tt columns offset (copied_count + length c)
                        (trace @ [pg_insert_query ts tt columns c]) chunks)"
    by (rule Cons.IH)
  moreover have "offset + batch_size \<le> fst (pg_insert_loop tgt ts tt columns
      (offset + batch_size) copied_count (trace @ [pg_insert_query ts tt columns c]) chunks)"
    by (rule Cons.IH)
  ultimately show ?case by (simp only: pg_insert_loop_Cons split: if_split) simp
qed

lemma pg_insert_loop_offset_pair:
  "(offset', rest) = pg_insert_loop tgt ts tt columns offset copied_count trace chunks
   \<Longrightarrow> offset \<le> offset'"
  using pg_insert_loop_offset[of offset tgt ts tt columns copied_count trace chunks]
  by (metis fst_conv)

text \<open>The \<^verbatim>\<open>while offset < total_rows\<close> loop of \<^verbatim>\<open>copy_data_mssql_to_pg_alternative\<close>.\<close>

function pg_batch_loop ::
  "target \<Rightarrow> source \<Rightarrow> (string \<Rightarrow> bool) \<Rightarrow> string \<Rightarrow> string \<Rightarrow> column list \<Rightarrow> nat \<Rightarrow>
   nat \<Rightarrow> nat \<Rightarrow> string list \<Rightarrow> (bool \<times> nat) \<times> string list" where
  "pg_batch_loop tgt src float_ok ts tt columns total_rows offset copied_count trace =
     (if offset < total_rows then
        (if snd (page src offset) \<noteq> 0 then ((False, copied_count), trace)
         else if parse_rows_pg (length columns) (fst (page src offset)) = []
         then ((True, copied_count), trace)
         else if pg_batch_values float_ok columns
                   (parse_rows_pg (length columns) (fst (page src offset))) = []
         then pg_batch_loop tgt src float_ok ts tt columns total_rows (offset + batch_size)
                copied_count trace
         else
           (case pg_insert_loop tgt ts tt columns offset copied_count trace
                   (insert_batches (pg_batch_values float_ok columns
                      (parse_rows_pg (length columns) (fst (page src offset))))) of
              (offset', copied', trace') \<Rightarrow>
                pg_batch_loop tgt src float_ok ts tt columns total_rows (offset' + batch_size)
                  copied' trace'))
      else ((True, copied_count), trace))"
  by pat_completeness auto
termination
  apply (relation "measure (\<lambda>(tgt, src, float_ok, ts, tt, columns, total_rows, offset,
                              copied_count, trace). total_rows - offset)")
    apply simp
   apply (simp add: batch_size_def)
  apply (simp add: batch_size_def)
  apply (drule pg_insert_loop_offset_pair)
  apply simp
  done

declare pg_batch_loop.simps [simp del]

definition copy_data_mssql_to_pg_alternative ::
  "target \<Rightarrow> source \<Rightarrow> (string \<Rightarrow> bool) \<Rightarrow> string \<Rightarrow> string \<Rightarrow> column list \<Rightarrow> nat \<Rightarrow>
   string list \<Rightarrow> (bool \<times> nat) \<times> string list" where
  "copy_data_mssql_to_pg_alternative tgt src float_ok ts tt columns total_rows trace =
     (case run_sql tgt trace (''DELETE FROM '' @ pg_table ts tt @ '';'') of
        (delete_answer, trace') \<Rightarrow>
          pg_batch_loop tgt src float_ok ts tt columns total_rows 0 0 trace')"

definition copy_data_mssql_to_pg ::
  "target \<Rightarrow> source \<Rightarrow> (string \<Rightarrow> bool) \<Rightarrow> string \<Rightarrow> string \<Rightarrow> string list \<Rightarrow>
   (bool \<times> nat) \<times> string list" where
  "copy_data_mssql_to_pg tgt src float_ok ts tt trace =
     (case run_sql tgt trace (''DELETE FROM '' @ pg_table ts tt @ '';'') of
        ((delete_result, delete_code), trace1) \<Rightarrow>
          let trace2 = (if delete_code \<noteq> 0
                        then snd (run_sql tgt trace1
                                    (''TRUNCATE TABLE '' @ pg_table ts tt @ '' CASCADE;''))
                        else trace1);
              columns = get_table_definition_mssql (meta_columns src) (meta_pk src)
                          (meta_identity src) (meta_computed src)
          in
          if columns = [] then ((False, 0), trace2)
          else if snd (row_count src) \<noteq> 0 then ((False, 0), trace2)
          else
            let total_rows = first_count (fst (row_count src)) in
            if total_rows = 0 then ((True, 0), trace2)
            else
              (case run_sql tgt trace2 (''SELECT COUNT(*) FROM '' @ pg_table ts tt @ '';'') of
                 ((check_result, check_code), trace3) \<Rightarrow>
                   let pg_count = (if check_code = 0 then first_count check_result else 0) in
                   if pg_count > 0 \<and> pg_count = total_rows then ((True, pg_count), trace3)
                   else copy_data_mssql_to_pg_alternative tgt src float_ok ts tt columns
                          total_rows trace3))"

subsection \<open>MySQL\<close>

definition mysql_table :: "string \<Rightarrow> string \<Rightarrow> string \<Rightarrow> string" where
  "mysql_table target_db target_schema target_table =
     ''`'' @ target_db @ ''`.`'' @ target_schema @ ''_'' @ target_table @ ''`''"

definition mysql_values :: "(string \<Rightarrow> bool) \<Rightarrow> column list \<Rightarrow> string list \<Rightarrow> string list" where
  "mysql_values float_ok columns row =
     map (\<lambda>i. mysql_value float_ok (columns ! i) (if i < length row then row ! i else []))
       [0 ..< length columns]"

definition mysql_batch_values ::
  "(string \<Rightarrow> bool) \<Rightarrow> column list \<Rightarrow> string list list \<Rightarrow> string list" where
  "mysql_batch_values float_ok columns rows =
     map (\<lambda>values. ''('' @ join '', '' values @ '')'')
       (filter (\<lambda>values. length values = length columns)
          (map (mysql_values float_ok columns) rows))"

definition mysql_insert_query ::
  "string \<Rightarrow> string \<Rightarrow> string \<Rightarrow> column list \<Rightarrow> string list \<Rightarrow> string" where
  "mysql_insert_query target_db ts tt columns batch_insert_values =
     ''INSERT INTO '' @ mysql_table target_db ts tt @ '' ('' @
     join '', '' (map (\<lambda>col. ''`'' @ name col @ ''`'') columns) @ '') VALUES '' @
     join '', '' batch_insert_values @ '';''"

fun mysql_insert_loop ::
  "target \<Rightarrow> string \<Rightarrow> string \<Rightarrow> string \<Rightarrow> column list \<Rightarrow> nat \<Rightarrow> nat \<Rightarrow> string list \<Rightarrow>
   string list list \<Rightarrow> nat \<times> nat \<times> string list" where
  "mysql_insert_loop tgt db ts tt columns offset copied_count trace [] =
     (offset, copied_count, trace)"
| "mysql_insert_loop tgt db ts tt columns offset copied_count trace
     (batch_insert_values # rest) =
     (case run_sql tgt trace (mysql_insert_query db ts tt columns batch_insert_values) of
        ((insert_result, insert_code), trace') \<Rightarrow>
          if insert_code \<noteq> 0 \<and> \<not> contains (lower insert_result) ''duplicate'' \<and>
             \<not> contains (lower insert_result) ''key''
          then mysql_insert_loop tgt db ts tt columns (offset + batch_size) copied_count
                 trace' rest
          else mysql_insert_loop tgt db ts tt columns offset
                 (copied_count + length batch_insert_values) trace' rest)"

lemma mysql_insert_loop_Cons:
  "mysql_insert_loop tgt db ts tt columns offset copied_count trace (c # rest) =
     (if snd (tgt trace (mysql_insert_query db ts tt columns c)) \<noteq> 0 \<and>
         \<not> contains (lower (fst (tgt trace (mysql_insert_query db ts tt columns c)))) ''duplicate'' \<and>
         \<not> contains (lower (fst (tgt trace (mysql_insert_query db ts tt columns c)))) ''key''
      then mysql_insert_loop tgt db ts tt columns (offset + batch_size) copied_count
             (trace @ [mysql_insert_query db ts tt columns c]) rest
      else mysql_insert_loop tgt db ts tt columns offset (copied_count + length c)
             (trace @ [mysql_insert_query db ts tt columns c]) rest)"
  by (simp add: run_sql_def split: prod.split)

lemma mysql_insert_loop_offset:
  "offset \<le> fst (mysql_insert_loop tgt db ts tt columns offset copied_count trace chunks)"
proof (induction chunks arbitrary: offset copied_count trace)
  case Nil
  then show ?case by simp
next
  case (Cons c chunks)
  have "offset \<le> fst (mysql_insert_loop tgt db ts tt columns offset (copied_count + length c)
                        (trace @ [mysql_insert_query db ts tt columns c]) chunks)"
    by (rule Cons.IH)
  moreover have "offset + batch_size \<le> fst (mysql_insert_loop tgt db ts tt columns
      (offset + batch_size) copied_count (trace @ [mysql_insert_query db ts tt columns c])
      chunks)"
    by (rule Cons.IH)
  ultimately show ?case by (simp only: mysql_insert_loop_Cons split: if_split) simp
qed

lemma mysql_insert_loop_offset_pair:
  "(offset', rest) = mysql_insert_loop tgt db ts tt columns offset copied_count trace chunks
   \<Longrightarrow> offset \<le> offset'"
  using mysql_insert_loop_offset[of offset tgt db ts tt columns copied_count trace chunks]
  by (metis fst_conv)

text \<open>The \<^verbatim>\<open>while offset < total_rows\<close> loop of \<^verbatim>\<open>copy_data_mssql_to_mysql_batch\<close>.\<close>

function mysql_batch_loop ::
  "target \<Rightarrow> source \<Rightarrow> (string \<Rightarrow> bool) \<Rightarrow> string \<Rightarrow> string \<Rightarrow> string \<Rightarrow> column list \<Rightarrow>
   nat \<Rightarrow> nat \<Rightarrow> nat \<Rightarrow> string list \<Rightarrow> (bool \<times> nat) \<times> string list" where
  "mysql_batch_loop tgt src float_ok db ts tt columns total_rows offset copied_count trace =
     (if offset < total_rows then
        (if snd (page src offset) \<noteq> 0 then ((False, copied_count), trace)
         else if parse_rows (length columns) (fst (page src offset)) = []
         then ((True, copied_count), trace)
         else if mysql_batch_values float_ok columns
                   (parse_rows (length columns) (fst (page src offset))) = []
         then mysql_batch_loop tgt src float_ok db ts tt columns total_rows
                (offset + batch_size) copied_count trace
         else
           (case mysql_insert_loop tgt db ts tt columns offset copied_count trace
                   (insert_batches (mysql_batch_values float_ok columns
                      (parse_rows (length columns) (fst (page src offset))))) of
              (offset', copied', trace') \<Rightarrow>
                mysql_batch_loop tgt src float_ok db ts tt columns total_rows
                  (offset' + batch_size) copied' trace'))
      else ((True, copied_count), trace))"
  by pat_completeness auto
termination
  apply (relation "measure (\<lambda>(tgt, src, float_ok, db, ts, tt, columns, total_rows, offset,
                              copied_count, trace). total_rows - offset)")
    apply simp
   apply (simp add: batch_size_def)
  apply (simp add: batch_size_def)
  apply (drule mysql_insert_loop_offset_pair)
  apply simp
  done

declare mysql_batch_loop.simps [simp del]

definition copy_data_mssql_to_mysql_batch ::
  "target \<Rightarrow> source \<Rightarrow> (string \<Rightarrow> bool) \<Rightarrow> string \<Rightarrow> string \<Rightarrow> string \<Rightarrow> column list \<Rightarrow>
   nat \<Rightarrow> string list \<Rightarrow> (bool \<times> nat) \<times> string list" where
  "copy_data_mssql_to_mysql_batch tgt src float_ok db ts tt columns total_rows trace =
     (case run_sql tgt trace (''DELETE FROM '' @ mysql_table db ts tt @ '';'') of
        (delete_answer, trace') \<Rightarrow>
          mysql_batch_loop tgt src float_ok db ts tt columns total_rows 0 0 trace')"

text \<open>
  \<^verbatim>\<open>create_table_mysql\<close>: the column definitions are built first (an exception there
  would leave the function), then the table is dropped and created.
\<close>

definition create_table_mysql ::
  "target \<Rightarrow> column list \<Rightarrow> string \<Rightarrow> string \<Rightarrow> string \<Rightarrow> string list \<Rightarrow>
   py_error + ((bool \<times> string) \<times> string list)" where
  "create_table_mysql tgt columns schema table database trace =
     (case create_table_mysql_sql columns schema table database of
        Inl e \<Rightarrow> Inl e
      | Inr create_table_sql \<Rightarrow>
          (case run_sql tgt trace
                  (''DROP TABLE IF EXISTS '' @ mysql_table database schema table @ '';'') of
             (drop_answer, trace1) \<Rightarrow>
               (case run_sql tgt trace1 create_table_sql of
                  ((result, code), trace2) \<Rightarrow> Inr ((code = 0, result), trace2))))"

definition table_exists_in :: "sql_result \<Rightarrow> bool" where
  "table_exists_in check =
     (snd check = 0 \<and>
      list_ex (\<lambda>line. line \<noteq> [] \<and> isdigit line \<and>
                 (case py_int line of Inl e \<Rightarrow> False | Inr k \<Rightarrow> k > 0))
        (map strip (split NEWLINE (fst check))))"

definition copy_data_mssql_to_mysql ::
  "target \<Rightarrow> source \<Rightarrow> (string \<Rightarrow> bool) \<Rightarrow> string \<Rightarrow> string \<Rightarrow> string \<Rightarrow> string list \<Rightarrow>
   py_error + ((bool \<times> nat) \<times> string list)" where
  "copy_data_mssql_to_mysql tgt src float_ok db ts tt trace =
     (case run_sql tgt trace
             (''SELECT COUNT(*) FROM INFORMATION_SCHEMA.TABLES WHERE TABLE_SCHEMA = '' @
              [QUOTE] @ db @ [QUOTE] @ '' AND TABLE_NAME = '' @
              [QUOTE] @ ts @ ''_'' @ tt @ [QUOTE] @ '';'') of
        (check, trace1) \<Rightarrow>
          let columns = get_table_definition_mssql (meta_columns src) (meta_pk src)
                          (meta_identity src) (meta_computed src)
          in
          if columns = [] then Inr ((False, 0), trace1)
          else
            (case (if \<not> table_exists_in check
                   then create_table_mysql tgt columns ts tt db trace1
                   else Inr ((True, []), trace1)) of
               Inl e \<Rightarrow> Inl e
             | Inr ((create_success, create_result), trace2) \<Rightarrow>
                 if \<not> create_success then Inr ((False, 0), trace2)
                 else if snd (row_count src) \<noteq> 0 then Inr ((False, 0), trace2)
                 else
                   let total_rows = first_count (fst (row_count src)) in
                   if total_rows = 0 then Inr ((True, 0), trace2)
                   else
                     (case run_sql tgt trace2
                             (''SELECT COUNT(*) FROM '' @ mysql_table db ts tt @ '';'') of
                        ((check_result, check_code), trace3) \<Rightarrow>
                          let mysql_count =
                                (if check_code = 0 then first_count check_result else 0)
                          in
                          if mysql_count > 0 \<and> mysql_count = total_rows
                          then Inr ((True, mysql_count), trace3)
                          else
                            (case run_sql tgt trace3
                                    (''DELETE FROM '' @ mysql_table db ts tt @ '';'') of
                               ((delete_result, delete_code), trace4) \<Rightarrow>
                                 let trace5 =
                                       (if delete_code \<noteq> 0
                                        then snd (run_sql tgt trace4
                                               (''TRUNCATE TABLE '' @ mysql_table db ts tt @
                                                '';''))
                                        else trace4)
                                 in Inr (copy_data_mssql_to_mysql_batch tgt src float_ok db ts
                                           tt columns total_rows trace5)))))"

subsection \<open>Properties of the transfer\<close>

text \<open>\<^verbatim>\<open>int\<close> does not fail on a line for which \<^verbatim>\<open>isdigit\<close> holds.\<close>

lemma isdigit_char_cases:
  "isdigit_char c \<Longrightarrow> \<not> isspace c \<and> c \<noteq> CHR ''-'' \<and> c \<noteq> CHR ''+'' \<and> c \<noteq> CHR ''_''"
  by (auto simp: isdigit_char_def isspace_def)

lemma digits_acc_digits:
  "list_all isdigit_char cs \<Longrightarrow> \<exists>n. digits_acc a cs = Inr n"
  by (induction cs arbitrary: a) simp_all

lemma py_int_isdigit:
  assumes "isdigit s"
  shows "\<exists>n. py_int s = Inr (int n)"
proof -
  from assms obtain c cs where s: "s = c # cs" and c: "isdigit_char c"
    and cs: "list_all isdigit_char cs"
    by (cases s) (auto simp: isdigit_def)
  from assms have "list_all isdigit_char s" by (simp add: isdigit_def)
  then have "isdigit_char (last s)" using s by (metis last_in_set list.discI list_all_iff)
  then have "rstrip s = s" using s isdigit_char_cases by (intro rstrip_id) auto
  moreover have "lstrip s = s" using s c isdigit_char_cases by (intro lstrip_id) auto
  ultimately have st: "strip s = c # cs" by (simp add: strip_def s)
  obtain n where "digits_acc (digit_val c) cs = Inr n"
    using digits_acc_digits[OF cs] by blast
  then have "digits_value (c # cs) = Inr n" using c by (simp add: digits_value_def)
  then have "py_int s = Inr (int n)"
    using c isdigit_char_cases[OF c] by (simp add: py_int_def st)
  then show ?thesis by blast
qed

lemma pg_insert_loop_trace:
  "snd (snd (pg_insert_loop tgt ts tt columns offset copied_count trace chunks)) =
     trace @ map (pg_insert_query ts tt columns) chunks"
proof (induction chunks arbitrary: offset copied_count trace)
  case Nil
  then show ?case by simp
next
  case (Cons c chunks)
  show ?case by (simp only: pg_insert_loop_Cons Cons.IH split: if_split) simp
qed

lemma mysql_insert_loop_trace:
  "snd (snd (mysql_insert_loop tgt db ts tt columns offset copied_count trace chunks)) =
     trace @ map (mysql_insert_query db ts tt columns) chunks"
proof (induction chunks arbitrary: offset copied_count trace)
  case Nil
  then show ?case by simp
next
  case (Cons c chunks)
  show ?case by (simp only: mysql_insert_loop_Cons Cons.IH split: if_split) simp
qed

definition is_insert :: "string \<Rightarrow> bool" where
  "is_insert query \<longleftrightarrow> startswith query ''INSERT INTO ''"

lemma pg_insert_query_is_insert: "is_insert (pg_insert_query ts tt columns c)"
  by (simp add: is_insert_def pg_insert_query_def)

lemma mysql_insert_query_is_insert: "is_insert (mysql_insert_query db ts tt columns c)"
  by (simp add: is_insert_def mysql_insert_query_def)

lemma pg_batch_loop_trace:
  "\<exists>qs. snd (pg_batch_loop tgt src float_ok ts tt columns total_rows offset copied_count trace)
          = trace @ qs \<and> list_all is_insert qs"
proof (induction tgt src float_ok ts tt columns total_rows offset copied_count trace
    rule: pg_batch_loop.induct)
  case (1 tgt src float_ok ts tt columns total_rows offset copied_count trace)
  let ?rows = "parse_rows_pg (length columns) (fst (page src offset))"
  let ?vals = "pg_batch_values float_ok columns ?rows"
  let ?r = "pg_insert_loop tgt ts tt columns offset copied_count trace (insert_batches ?vals)"
  consider (stop) "\<not> offset < total_rows \<or> snd (page src offset) \<noteq> 0 \<or> ?rows = []"
    | (skip) "offset < total_rows" "\<not> snd (page src offset) \<noteq> 0" "?rows \<noteq> []" "?vals = []"
    | (load) "offset < total_rows" "\<not> snd (page src offset) \<noteq> 0" "?rows \<noteq> []" "?vals \<noteq> []"
    by blast
  then show ?case
  proof cases
    case stop
    then have "snd (pg_batch_loop tgt src float_ok ts tt columns total_rows offset copied_count
                      trace) = trace @ []"
      by (subst pg_batch_loop.simps) auto
    then show ?thesis by (intro exI[of _ "[]"]) simp
  next
    case skip
    from "1.IH"(1)[OF skip] obtain qs where
      "snd (pg_batch_loop tgt src float_ok ts tt columns total_rows (offset + batch_size)
              copied_count trace) = trace @ qs \<and> list_all is_insert qs"
      by blast
    moreover have "pg_batch_loop tgt src float_ok ts tt columns total_rows offset copied_count
        trace = pg_batch_loop tgt src float_ok ts tt columns total_rows (offset + batch_size)
                  copied_count trace"
      using skip by (subst pg_batch_loop.simps) simp
    ultimately show ?thesis by simp
  next
    case load
    obtain offset' copied' trace' where r: "?r = (offset', copied', trace')"
      by (cases ?r) auto
    have t: "trace' = trace @ map (pg_insert_query ts tt columns) (insert_batches ?vals)"
      using pg_insert_loop_trace[of tgt ts tt columns offset copied_count trace
          "insert_batches ?vals"] r by simp
    from "1.IH"(2)[OF load, of offset' "(copied', trace')" copied' trace'] r obtain qs where
      qs: "snd (pg_batch_loop tgt src float_ok ts tt columns total_rows (offset' + batch_size)
              copied' trace') = trace' @ qs \<and> list_all is_insert qs"
      by auto
    have "pg_batch_loop tgt src float_ok ts tt columns total_rows offset copied_count
        trace = pg_batch_loop tgt src float_ok ts tt columns total_rows (offset' + batch_size)
                  copied' trace'"
      using load r by (subst pg_batch_loop.simps) simp
    with qs t have "snd (pg_batch_loop tgt src float_ok ts tt columns total_rows offset
        copied_count trace) =
        trace @ (map (pg_insert_query ts tt columns) (insert_batches ?vals) @ qs)"
      by simp
    moreover have "list_all is_insert (map (pg_insert_query ts tt columns)
        (insert_batches ?vals) @ qs)"
      using qs by (auto simp: list_all_iff pg_insert_query_is_insert)
    ultimately show ?thesis by blast
  qed
qed

lemma mysql_batch_loop_trace:
  "\<exists>qs. snd (mysql_batch_loop tgt src float_ok db ts tt columns total_rows offset copied_count
               trace)
          = trace @ qs \<and> list_all is_insert qs"
proof (induction tgt src float_ok db ts tt columns total_rows offset copied_count trace
    rule: mysql_batch_loop.induct)
  case (1 tgt src float_ok db ts tt columns total_rows offset copied_count trace)
  let ?rows = "parse_rows (length columns) (fst (page src offset))"
  let ?vals = "mysql_batch_values float_ok columns ?rows"
  let ?r = "mysql_insert_loop tgt db ts tt columns offset copied_count trace
              (insert_batches ?vals)"
  consider (stop) "\<not> offset < total_rows \<or> snd (page src offset) \<noteq> 0 \<or> ?rows = []"
    | (skip) "offset < total_rows" "\<not> snd (page src offset) \<noteq> 0" "?rows \<noteq> []" "?vals = []"
    | (load) "offset < total_rows" "\<not> snd (page src offset) \<noteq> 0" "?rows \<noteq> []" "?vals \<noteq> []"
    by blast
  then show ?case
  proof cases
    case stop
    then have "snd (mysql_batch_loop tgt src float_ok db ts tt columns total_rows offset
                      copied_count trace) = trace @ []"
      by (subst mysql_batch_loop.simps) auto
    then show ?thesis by (intro exI[of _ "[]"]) simp
  next
    case skip
    from "1.IH"(1)[OF skip] obtain qs where
      "snd (mysql_batch_loop tgt src float_ok db ts tt columns total_rows (offset + batch_size)
              copied_count trace) = trace @ qs \<and> list_all is_insert qs"
      by blast
    moreover have "mysql_batch_loop tgt src float_ok db ts tt columns total_rows offset
        copied_count trace =
        mysql_batch_loop tgt src float_ok db ts tt columns total_rows (offset + batch_size)
          copied_count trace"
      using skip by (subst mysql_batch_loop.simps) simp
    ultimately show ?thesis by simp
  next
    case load
    obtain offset' copied' trace' where r: "?r = (offset', copied', trace')"
      by (cases ?r) auto
    have t: "trace' = trace @ map (mysql_insert_query db ts tt columns) (insert_batches ?vals)"
      using mysql_insert_loop_trace[of tgt db ts tt columns offset copied_count trace
          "insert_batches ?vals"] r by simp
    from "1.IH"(2)[OF load, of offset' "(copied', trace')" copied' trace'] r obtain qs where
      qs: "snd (mysql_batch_loop tgt src float_ok db ts tt columns total_rows
                  (offset' + batch_size) copied' trace') = trace' @ qs \<and> list_all is_insert qs"
      by auto
    have "mysql_batch_loop tgt src float_ok db ts tt columns total_rows offset copied_count
        trace = mysql_batch_loop tgt src float_ok db ts tt columns total_rows
                  (offset' + batch_size) copied' trace'"
      using load r by (subst mysql_batch_loop.simps) simp
    with qs t have "snd (mysql_batch_loop tgt src float_ok db ts tt columns total_rows offset
        copied_count trace) =
        trace @ (map (mysql_insert_query db ts tt columns) (insert_batches ?vals) @ qs)"
      by simp
    moreover have "list_all is_insert (map (mysql_insert_query db ts tt columns)
        (insert_batches ?vals) @ qs)"
      using qs by (auto simp: list_all_iff mysql_insert_query_is_insert)
    ultimately show ?thesis by blast
  qed
qed
text \<open>
  A chunk is counted when its INSERT returned status 0 or an error text that names a
  duplicate key: the negation of the error test of each inner loop.
\<close>

definition pg_counted :: "sql_result \<Rightarrow> bool" where
  "pg_counted r \<longleftrightarrow>
     snd r = 0 \<or> contains (lower (fst r)) ''duplicate key'' \<or> contains (lower (fst r)) ''conflict''"

definition mysql_counted :: "sql_result \<Rightarrow> bool" where
  "mysql_counted r \<longleftrightarrow>
     snd r = 0 \<or> contains (lower (fst r)) ''duplicate'' \<or> contains (lower (fst r)) ''key''"

lemma upt_Suc_shift: "map f [0 ..< Suc n] = f 0 # map (\<lambda>i. f (Suc i)) [0 ..< n]"
proof -
  have "[0 ..< Suc n] = 0 # map Suc [0 ..< n]"
    by (simp add: upt_conv_Cons map_Suc_upt)
  then show ?thesis by (simp add: comp_def)
qed

lemma mysql_insert_loop_count:
  "fst (snd (mysql_insert_loop tgt db ts tt columns offset copied_count trace chunks)) =
     copied_count +
     sum_list (map (\<lambda>i. if mysql_counted
                             (tgt (trace @ map (mysql_insert_query db ts tt columns)
                                              (take i chunks))
                                  (mysql_insert_query db ts tt columns (chunks ! i)))
                          then length (chunks ! i) else 0)
                 [0 ..< length chunks])"
proof (induction chunks arbitrary: offset copied_count trace)
  case Nil
  then show ?case by simp
next
  case (Cons c chunks)
  let ?q = "mysql_insert_query db ts tt columns"
  let ?f = "\<lambda>t cs i. if mysql_counted (tgt (t @ map ?q (take i cs)) (?q (cs ! i)))
                      then length (cs ! i) else 0"
  have shift: "sum_list (map (?f trace (c # chunks)) [0 ..< length (c # chunks)]) =
        ?f trace (c # chunks) 0 +
        sum_list (map (?f (trace @ [?q c]) chunks) [0 ..< length chunks])"
    by (simp add: upt_Suc_shift del: upt_Suc cong: if_cong)
  have first: "?f trace (c # chunks) 0 = (if mysql_counted (tgt trace (?q c)) then length c else 0)"
    by simp
  show ?case
  proof (cases "mysql_counted (tgt trace (?q c))")
    case True
    then have "mysql_insert_loop tgt db ts tt columns offset copied_count trace (c # chunks) =
        mysql_insert_loop tgt db ts tt columns offset (copied_count + length c)
          (trace @ [?q c]) chunks"
      by (simp only: mysql_insert_loop_Cons mysql_counted_def) auto
    with True show ?thesis
      by (simp only: Cons.IH shift first) simp
  next
    case False
    then have "mysql_insert_loop tgt db ts tt columns offset copied_count trace (c # chunks) =
        mysql_insert_loop tgt db ts tt columns (offset + batch_size) copied_count
          (trace @ [?q c]) chunks"
      by (simp only: mysql_insert_loop_Cons mysql_counted_def) auto
    with False show ?thesis
      by (simp only: Cons.IH shift first) simp
  qed
qed

lemma pg_insert_loop_count:
  "fst (snd (pg_insert_loop tgt ts tt columns offset copied_count trace chunks)) =
     copied_count +
     sum_list (map (\<lambda>i. if pg_counted
                             (tgt (trace @ map (pg_insert_query ts tt columns) (take i chunks))
                                  (pg_insert_query ts tt columns (chunks ! i)))
                          then length (chunks ! i) else 0)
                 [0 ..< length chunks])"
proof (induction chunks arbitrary: offset copied_count trace)
  case Nil
  then show ?case by simp
next
  case (Cons c chunks)
  let ?q = "pg_insert_query ts tt columns"
  let ?f = "\<lambda>t cs i. if pg_counted (tgt (t @ map ?q (take i cs)) (?q (cs ! i)))
                      then length (cs ! i) else 0"
  have shift: "sum_list (map (?f trace (c # chunks)) [0 ..< length (c # chunks)]) =
        ?f trace (c # chunks) 0 +
        sum_list (map (?f (trace @ [?q c]) chunks) [0 ..< length chunks])"
    by (simp add: upt_Suc_shift del: upt_Suc cong: if_cong)
  have first: "?f trace (c # chunks) 0 = (if pg_counted (tgt trace (?q c)) then length c else 0)"
    by simp
  show ?case
  proof (cases "pg_counted (tgt trace (?q c))")
    case True
    then have "pg_insert_loop tgt ts tt columns offset copied_count trace (c # chunks) =
        pg_insert_loop tgt ts tt columns offset (copied_count + length c)
          (trace @ [?q c]) chunks"
      by (simp only: pg_insert_loop_Cons pg_counted_def) auto
    with True show ?thesis
      by (simp only: Cons.IH shift first) simp
  next
    case False
    then have "pg_insert_loop tgt ts tt columns offset copied_count trace (c # chunks) =
        pg_insert_loop tgt ts tt columns (offset + batch_size) copied_count
          (trace @ [?q c]) chunks"
      by (simp only: pg_insert_loop_Cons pg_counted_def) auto
    with False show ?thesis
      by (simp only: Cons.IH shift first) simp
  qed
qed

lemma on_conflict_clause_keyed:
  "filter is_pk columns \<noteq> [] \<Longrightarrow>
     on_conflict_clause columns =
       '' ON CONFLICT ('' @
       join '', '' (map (\<lambda>col. [DQUOTE] @ name col @ [DQUOTE]) (filter is_pk columns)) @
       '') DO NOTHING''"
  by (simp add: on_conflict_clause_def Let_def)
lemma mysql_batch_loop_step:
  assumes "offset < total_rows" and "page src offset = (data, 0)"
      and "parse_rows (length columns) data = rows" and "rows \<noteq> []"
      and "mysql_batch_values float_ok columns rows = vals" and "vals \<noteq> []"
      and "mysql_insert_loop tgt db ts tt columns offset copied_count trace
             (insert_batches vals) = (offset', copied', trace')"
  shows "mysql_batch_loop tgt src float_ok db ts tt columns total_rows offset copied_count trace
         = mysql_batch_loop tgt src float_ok db ts tt columns total_rows
             (offset' + batch_size) copied' trace'"
  by (subst mysql_batch_loop.simps) (simp add: assms)

lemma mysql_batch_loop_done:
  "\<not> offset < total_rows \<Longrightarrow>
   mysql_batch_loop tgt src float_ok db ts tt columns total_rows offset copied_count trace
     = ((True, copied_count), trace)"
  by (subst mysql_batch_loop.simps) simp

lemma pg_batch_loop_step:
  assumes "offset < total_rows" and "page src offset = (data, 0)"
      and "parse_rows_pg (length columns) data = rows" and "rows \<noteq> []"
      and "pg_batch_values float_ok columns rows = vals" and "vals \<noteq> []"
      and "pg_insert_loop tgt ts tt columns offset copied_count trace
             (insert_batches vals) = (offset', copied', trace')"
  shows "pg_batch_loop tgt src float_ok ts tt columns total_rows offset copied_count trace
         = pg_batch_loop tgt src float_ok ts tt columns total_rows
             (offset' + batch_size) copied' trace'"
  by (subst pg_batch_loop.simps) (simp add: assms)

lemma insert_batches_two: "insert_batches [a, b] = [[a, b]]"
  by (simp add: insert_batches_def insert_batch_size_def)

text \<open>
  Claim C3, as stated, fails: on the MySQL path a page of two rows goes out as one INSERT;
  the target rejects it with a duplicate-key error (status 1), and the transfer still
  returns success with 2 rows copied: the rows of the failed chunk are counted.
\<close>

theorem failed_duplicate_chunk_is_counted:
  "snd ((\<lambda>trace query. (''ERROR 1062 (23000): Duplicate entry'', 1::int))
         [''DELETE FROM '' @ mysql_table ''db'' ''Person'' ''P'' @ '';'']
         (mysql_insert_query ''db'' ''Person'' ''P''
            [\<lparr>name = ''ID'', data_type = ''int'', is_nullable = False, max_length = None,
              precision = Some ''10'', scale = Some ''0'', is_pk = True, is_identity = False\<rparr>,
             \<lparr>name = ''Name'', data_type = ''nvarchar'', is_nullable = False,
              max_length = Some ''50'', precision = None, scale = None, is_pk = False,
              is_identity = False\<rparr>]
            [''(1, '' @ [QUOTE] @ ''Ann'' @ [QUOTE] @ '')'',
             ''(2, '' @ [QUOTE] @ ''Bob'' @ [QUOTE] @ '')''])) \<noteq> 0 \<and>
   copy_data_mssql_to_mysql_batch
     (\<lambda>trace query. (''ERROR 1062 (23000): Duplicate entry'', 1))
     \<lparr>meta_columns = ([], 0), meta_pk = ([], 0), meta_identity = ([], 0),
      meta_computed = ([], 0), row_count = (''2'', 0),
      page = (\<lambda>offset. (''1'' @ [TAB] @ ''Ann'' @ [NEWLINE] @ ''2'' @ [TAB] @ ''Bob'', 0))\<rparr>
     (\<lambda>v. False) ''db'' ''Person'' ''P''
     [\<lparr>name = ''ID'', data_type = ''int'', is_nullable = False, max_length = None,
       precision = Some ''10'', scale = Some ''0'', is_pk = True, is_identity = False\<rparr>,
      \<lparr>name = ''Name'', data_type = ''nvarchar'', is_nullable = False,
       max_length = Some ''50'', precision = None, scale = None, is_pk = False,
       is_identity = False\<rparr>]
     2 []
   = ((True, 2),
      [''DELETE FROM '' @ mysql_table ''db'' ''Person'' ''P'' @ '';'',
       mysql_insert_query ''db'' ''Person'' ''P''
         [\<lparr>name = ''ID'', data_type = ''int'', is_nullable = False, max_length = None,
           precision = Some ''10'', scale = Some ''0'', is_pk = True, is_identity = False\<rparr>,
          \<lparr>name = ''Name'', data_type = ''nvarchar'', is_nullable = False,
           max_length = Some ''50'', precision = None, scale = None, is_pk = False,
           is_identity = False\<rparr>]
         [''(1, '' @ [QUOTE] @ ''Ann'' @ [QUOTE] @ '')'',
          ''(2, '' @ [QUOTE] @ ''Bob'' @ [QUOTE] @ '')'']])"
proof -
  let ?tgt = "\<lambda>(trace :: string list) (query :: string).
                (''ERROR 1062 (23000): Duplicate entry'', 1::int)"
  let ?data = "''1'' @ [TAB] @ ''Ann'' @ [NEWLINE] @ ''2'' @ [TAB] @ ''Bob''"
  let ?src = "\<lparr>meta_columns = ([], 0), meta_pk = ([], 0), meta_identity = ([], 0),
      meta_computed = ([], 0), row_count = (''2'', 0),
      page = (\<lambda>offset :: nat. (?data, 0::int))\<rparr>"
  let ?cols = "[\<lparr>name = ''ID'', data_type = ''int'', is_nullable = False, max_length = None,
       precision = Some ''10'', scale = Some ''0'', is_pk = True, is_identity = False\<rparr>,
      \<lparr>name = ''Name'', data_type = ''nvarchar'', is_nullable = False,
       max_length = Some ''50'', precision = None, scale = None, is_pk = False,
       is_identity = False\<rparr>]"
  let ?rows = "[[''1'', ''Ann''], [''2'', ''Bob'']]"
  let ?vals = "[''(1, '' @ [QUOTE] @ ''Ann'' @ [QUOTE] @ '')'',
                ''(2, '' @ [QUOTE] @ ''Bob'' @ [QUOTE] @ '')'']"
  let ?del = "''DELETE FROM '' @ mysql_table ''db'' ''Person'' ''P'' @ '';''"
  let ?ins = "mysql_insert_query ''db'' ''Person'' ''P'' ?cols ?vals"
  have p: "page ?src 0 = (?data, 0)" by simp
  have r: "parse_rows (length ?cols) ?data = ?rows" by code_simp
  have v: "mysql_batch_values (\<lambda>v. False) ?cols ?rows = ?vals"
    by (simp add: mysql_batch_values_def mysql_values_def mysql_value_def Let_def strip_def
        lstrip_def rstrip_def isspace_def lower_def lower_char_def py_int_def digits_value_def
        isdigit_char_def digit_val_def quoted_def val_escaped_mysql_def replace_def
        upt_rec[of 0] upt_rec[of "Suc 0"] upt_rec[of 1] upt_rec[of 2])
  have dup: "contains (lower ''ERROR 1062 (23000): Duplicate entry'') ''duplicate''"
    by code_simp
  have l: "mysql_insert_loop ?tgt ''db'' ''Person'' ''P'' ?cols 0 0 [?del]
             (insert_batches ?vals) = (0, 2, [?del, ?ins])"
    by (simp add: insert_batches_two mysql_insert_loop_Cons dup
        del: mysql_insert_loop.simps(2))
  have "mysql_batch_loop ?tgt ?src (\<lambda>v. False) ''db'' ''Person'' ''P'' ?cols 2 0 0 [?del]
        = mysql_batch_loop ?tgt ?src (\<lambda>v. False) ''db'' ''Person'' ''P'' ?cols 2
            (0 + batch_size) 2 [?del, ?ins]"
    by (rule mysql_batch_loop_step[OF _ p r _ v _ l]) simp_all
  also have "\<dots> = ((True, 2), [?del, ?ins])"
    by (rule mysql_batch_loop_done) (simp add: batch_size_def)
  finally have "copy_data_mssql_to_mysql_batch ?tgt ?src (\<lambda>v. False) ''db'' ''Person'' ''P''
      ?cols 2 [] = ((True, 2), [?del, ?ins])"
    by (simp add: copy_data_mssql_to_mysql_batch_def run_sql_def)
  then show ?thesis by simp
qed

lemma pg_insert_query_split:
  "pg_insert_query ts tt columns chunk = (''INSERT INTO '' @ pg_table ts tt @ '' ('' @
     join '', '' (map (\<lambda>col. [DQUOTE] @ name col @ [DQUOTE]) columns) @ '')'' @
     (if list_ex is_identity columns then '' OVERRIDING SYSTEM VALUE'' else []) @
     '' VALUES '' @ join '', '' chunk) @ on_conflict_clause columns @ '';''"
    by (simp only: pg_insert_query_def append_assoc)

lemma on_conflict_clause_end:
  assumes pk: "filter is_pk columns \<noteq> []"
  shows "on_conflict_clause columns @ '';'' =
         '' ON CONFLICT ('' @
         join '', '' (map (\<lambda>col. [DQUOTE] @ name col @ [DQUOTE]) (filter is_pk columns)) @
         '') DO NOTHING;''"
    by (simp add: on_conflict_clause_keyed[OF pk])

lemma pg_insert_query_keyed:
  assumes pk: "filter is_pk columns \<noteq> []"
  shows "\<exists>pre. pg_insert_query ts tt columns chunk =
         pre @ '' ON CONFLICT ('' @
         join '', '' (map (\<lambda>col. [DQUOTE] @ name col @ [DQUOTE]) (filter is_pk columns)) @
         '') DO NOTHING;''"
proof -
  let ?head = "''INSERT INTO '' @ pg_table ts tt @ '' ('' @
     join '', '' (map (\<lambda>col. [DQUOTE] @ name col @ [DQUOTE]) columns) @ '')'' @
     (if list_ex is_identity columns then '' OVERRIDING SYSTEM VALUE'' else []) @
     '' VALUES '' @ join '', '' chunk"
  have e: "pg_insert_query ts tt columns chunk = ?head @
     ('' ON CONFLICT ('' @
         join '', '' (map (\<lambda>col. [DQUOTE] @ name col @ [DQUOTE]) (filter is_pk columns)) @
         '') DO NOTHING;'')"
    unfolding on_conflict_clause_end[OF pk, symmetric] by (rule pg_insert_query_split)
  show ?thesis by (rule exI[of _ ?head]) (rule e)
qed

text \<open>
  Claim C3, amended. With a non-empty primary key the INSERT of the PostgreSQL path ends
  with the clause \<open>ON CONFLICT (key columns) DO NOTHING\<close>. On both paths every chunk of a
  page is sent, whatever the earlier chunks returned, and the number of rows added to the
  count is the total size of the chunks whose INSERT returned status 0 or failed with an
  error text naming a duplicate key (\<open>duplicate key\<close> or \<open>conflict\<close> for PostgreSQL,
  \<open>duplicate\<close> or \<open>key\<close> for MySQL): the rows of such a failed chunk are counted, the rows
  of a chunk that failed with any other error are not.
\<close>

theorem insert_conflict_policy:
  "(filter is_pk columns \<noteq> [] \<longrightarrow>
      (\<exists>pre. pg_insert_query ts tt columns chunk =
         pre @ '' ON CONFLICT ('' @
         join '', '' (map (\<lambda>col. [DQUOTE] @ name col @ [DQUOTE]) (filter is_pk columns)) @
         '') DO NOTHING;'')) \<and>
   snd (snd (pg_insert_loop tgt ts tt columns offset copied_count trace chunks)) =
     trace @ map (pg_insert_query ts tt columns) chunks \<and>
   fst (snd (pg_insert_loop tgt ts tt columns offset copied_count trace chunks)) =
     copied_count +
     sum_list (map (\<lambda>i. if pg_counted
                             (tgt (trace @ map (pg_insert_query ts tt columns) (take i chunks))
                                  (pg_insert_query ts tt columns (chunks ! i)))
                          then length (chunks ! i) else 0)
                 [0 ..< length chunks]) \<and>
   snd (snd (mysql_insert_loop tgt db ts tt columns offset copied_count trace chunks)) =
     trace @ map (mysql_insert_query db ts tt columns) chunks \<and>
   fst (snd (mysql_insert_loop tgt db ts tt columns offset copied_count trace chunks)) =
     copied_count +
     sum_list (map (\<lambda>i. if mysql_counted
                             (tgt (trace @ map (mysql_insert_query db ts tt columns)
                                              (take i chunks))
                                  (mysql_insert_query db ts tt columns (chunks ! i)))
                          then length (chunks ! i) else 0)
                 [0 ..< length chunks])"
proof (intro conjI impI)
  assume pk: "filter is_pk columns \<noteq> []"
  show "\<exists>pre. pg_insert_query ts tt columns chunk =
         pre @ '' ON CONFLICT ('' @
         join '', '' (map (\<lambda>col. [DQUOTE] @ name col @ [DQUOTE]) (filter is_pk columns)) @
         '') DO NOTHING;''"
    using pk by (rule pg_insert_query_keyed [of columns ts tt chunk])
next
  show "snd (snd (pg_insert_loop tgt ts tt columns offset copied_count trace chunks)) =
     trace @ map (pg_insert_query ts tt columns) chunks"
    using pg_insert_loop_trace [of tgt ts tt columns offset copied_count trace chunks] .
next
  show "fst (snd (pg_insert_loop tgt ts tt columns offset copied_count trace chunks)) =
     copied_count +
     sum_list (map (\<lambda>i. if pg_counted
                             (tgt (trace @ map (pg_insert_query ts tt columns) (take i chunks))
                                  (pg_insert_query ts tt columns (chunks ! i)))
                          then length (chunks ! i) else 0)
                 [0 ..< length chunks])"
    using pg_insert_loop_count [of tgt ts tt columns offset copied_count trace chunks] .
next
  show "snd (snd (mysql_insert_loop tgt db ts tt columns offset copied_count trace chunks)) =
     trace @ map (mysql_insert_query db ts tt columns) chunks"
    using mysql_insert_loop_trace [of tgt db ts tt columns offset copied_count trace chunks] .
next
  show "fst (snd (mysql_insert_loop tgt db ts tt columns offset copied_count trace chunks)) =
     copied_count +
     sum_list (map (\<lambda>i. if mysql_counted
                             (tgt (trace @ map (mysql_insert_query db ts tt columns)
                                              (take i chunks))
                                  (mysql_insert_query db ts tt columns (chunks ! i)))
                          then length (chunks ! i) else 0)
                 [0 ..< length chunks])"
    using mysql_insert_loop_count [of tgt db ts tt columns offset copied_count trace chunks] .
qed

theorem insert_conflict_policy_witness:
  "filter is_pk [\<lparr>name = ''ID'', data_type = ''int'', is_nullable = False, max_length = None,
       precision = Some ''10'', scale = Some ''0'', is_pk = True, is_identity = False\<rparr>,
      \<lparr>name = ''Name'', data_type = ''nvarchar'', is_nullable = False,
       max_length = Some ''50'', precision = None, scale = None, is_pk = False,
       is_identity = False\<rparr>] \<noteq> [] \<and>
   (\<exists>pre. pg_insert_query ''Person'' ''P''
       [\<lparr>name = ''ID'', data_type = ''int'', is_nullable = False, max_length = None,
          precision = Some ''10'', scale = Some ''0'', is_pk = True, is_identity = False\<rparr>,
        \<lparr>name = ''Name'', data_type = ''nvarchar'', is_nullable = False,
          max_length = Some ''50'', precision = None, scale = None, is_pk = False,
          is_identity = False\<rparr>]
       [''(1, '' @ [QUOTE] @ ''Ann'' @ [QUOTE] @ '')'']
     = pre @ '' ON CONFLICT ('' @ [DQUOTE] @ ''ID'' @ [DQUOTE] @ '') DO NOTHING;'')"
proof -
  let ?cols = "[\<lparr>name = ''ID'', data_type = ''int'', is_nullable = False, max_length = None,
       precision = Some ''10'', scale = Some ''0'', is_pk = True, is_identity = False\<rparr>,
      \<lparr>name = ''Name'', data_type = ''nvarchar'', is_nullable = False,
       max_length = Some ''50'', precision = None, scale = None, is_pk = False,
       is_identity = False\<rparr>]"
  have h: "filter is_pk ?cols \<noteq> []" by simp
  have j: "join '', '' (map (\<lambda>col. [DQUOTE] @ name col @ [DQUOTE]) (filter is_pk ?cols)) =
           [DQUOTE] @ ''ID'' @ [DQUOTE]"
    by simp
  from insert_conflict_policy [of ?cols "''Person''" "''P''"
      "[''(1, '' @ [QUOTE] @ ''Ann'' @ [QUOTE] @ '')'']", THEN conjunct1] h
  have "\<exists>pre. pg_insert_query ''Person'' ''P'' ?cols
               [''(1, '' @ [QUOTE] @ ''Ann'' @ [QUOTE] @ '')''] =
         pre @ '' ON CONFLICT ('' @
         join '', '' (map (\<lambda>col. [DQUOTE] @ name col @ [DQUOTE]) (filter is_pk ?cols)) @
         '') DO NOTHING;''"
    by (rule mp)
  then have "\<exists>pre. pg_insert_query ''Person'' ''P'' ?cols
               [''(1, '' @ [QUOTE] @ ''Ann'' @ [QUOTE] @ '')''] =
         pre @ '' ON CONFLICT ('' @ ([DQUOTE] @ ''ID'' @ [DQUOTE]) @ '') DO NOTHING;''"
    by (simp only: j)
  with h show ?thesis by simp
qed

text \<open>
  Claim C9. When the page query at the current offset returns a nonzero status, the loop
  of the PostgreSQL path and that of the MySQL path return at once: failure, with the
  number of rows counted so far, and with nothing more sent to the target. In a whole
  run of either batch function, failed or not, the statements sent to the target after
  the opening DELETE are INSERT statements only: rows loaded by earlier pages are never
  taken back.
\<close>

theorem extraction_failure_aborts:
  "(offset < total_rows \<and> snd (page src offset) \<noteq> 0 \<longrightarrow>
      pg_batch_loop tgt src float_ok ts tt columns total_rows offset copied_count trace
        = ((False, copied_count), trace) \<and>
      mysql_batch_loop tgt src float_ok db ts tt columns total_rows offset copied_count trace
        = ((False, copied_count), trace)) \<and>
   (\<exists>qs. snd (copy_data_mssql_to_pg_alternative tgt src float_ok ts tt columns total_rows trace)
            = trace @ [''DELETE FROM '' @ pg_table ts tt @ '';''] @ qs \<and>
          list_all is_insert qs) \<and>
   (\<exists>qs. snd (copy_data_mssql_to_mysql_batch tgt src float_ok db ts tt columns total_rows
                 trace)
            = trace @ [''DELETE FROM '' @ mysql_table db ts tt @ '';''] @ qs \<and>
          list_all is_insert qs)"
proof (intro conjI impI)
  assume a: "offset < total_rows \<and> snd (page src offset) \<noteq> 0"
  then show "pg_batch_loop tgt src float_ok ts tt columns total_rows offset copied_count trace
        = ((False, copied_count), trace)"
    by (subst pg_batch_loop.simps) simp
  from a show "mysql_batch_loop tgt src float_ok db ts tt columns total_rows offset
        copied_count trace = ((False, copied_count), trace)"
    by (subst mysql_batch_loop.simps) simp
next
  obtain qs where "snd (pg_batch_loop tgt src float_ok ts tt columns total_rows 0 0
      (trace @ [''DELETE FROM '' @ pg_table ts tt @ '';''])) =
      (trace @ [''DELETE FROM '' @ pg_table ts tt @ '';'']) @ qs \<and> list_all is_insert qs"
    using pg_batch_loop_trace by blast
  then show "\<exists>qs. snd (copy_data_mssql_to_pg_alternative tgt src float_ok ts tt columns
      total_rows trace) = trace @ [''DELETE FROM '' @ pg_table ts tt @ '';''] @ qs \<and>
      list_all is_insert qs"
    by (auto simp: copy_data_mssql_to_pg_alternative_def run_sql_def)
next
  obtain qs where "snd (mysql_batch_loop tgt src float_ok db ts tt columns total_rows 0 0
      (trace @ [''DELETE FROM '' @ mysql_table db ts tt @ '';''])) =
      (trace @ [''DELETE FROM '' @ mysql_table db ts tt @ '';'']) @ qs \<and> list_all is_insert qs"
    using mysql_batch_loop_trace by blast
  then show "\<exists>qs. snd (copy_data_mssql_to_mysql_batch tgt src float_ok db ts tt columns
      total_rows trace) = trace @ [''DELETE FROM '' @ mysql_table db ts tt @ '';''] @ qs \<and>
      list_all is_insert qs"
    by (auto simp: copy_data_mssql_to_mysql_batch_def run_sql_def)
qed

theorem extraction_failure_aborts_witness:
  "(1000::nat) < 1500 \<and>
   snd (page \<lparr>meta_columns = ([], 0), meta_pk = ([], 0), meta_identity = ([], 0),
      meta_computed = ([], 0), row_count = (''1500'', 0),
      page = (\<lambda>offset. if offset = 0
                then (''1'' @ [TAB] @ ''Ann'' @ [NEWLINE] @ ''2'' @ [TAB] @ ''Bob'', 0)
                else (''Timeout'', 1))\<rparr> 1000) \<noteq> 0 \<and>
   copy_data_mssql_to_pg_alternative (\<lambda>trace query. ([], 0))
     \<lparr>meta_columns = ([], 0), meta_pk = ([], 0), meta_identity = ([], 0),
      meta_computed = ([], 0), row_count = (''1500'', 0),
      page = (\<lambda>offset. if offset = 0
                then (''1'' @ [TAB] @ ''Ann'' @ [NEWLINE] @ ''2'' @ [TAB] @ ''Bob'', 0)
                else (''Timeout'', 1))\<rparr>
     (\<lambda>v. False) ''Person'' ''P''
     [\<lparr>name = ''ID'', data_type = ''int'', is_nullable = False, max_length = None,
       precision = Some ''10'', scale = Some ''0'', is_pk = True, is_identity = False\<rparr>,
      \<lparr>name = ''Name'', data_type = ''nvarchar'', is_nullable = False,
       max_length = Some ''50'', precision = None, scale = None, is_pk = False,
       is_identity = False\<rparr>]
     1500 []
   = ((False, 2),
      [''DELETE FROM '' @ pg_table ''Person'' ''P'' @ '';'',
       pg_insert_query ''Person'' ''P''
         [\<lparr>name = ''ID'', data_type = ''int'', is_nullable = False, max_length = None,
           precision = Some ''10'', scale = Some ''0'', is_pk = True, is_identity = False\<rparr>,
          \<lparr>name = ''Name'', data_type = ''nvarchar'', is_nullable = False,
           max_length = Some ''50'', precision = None, scale = None, is_pk = False,
           is_identity = False\<rparr>]
         [''(1, '' @ [QUOTE] @ ''Ann'' @ [QUOTE] @ '')'',
          ''(2, '' @ [QUOTE] @ ''Bob'' @ [QUOTE] @ '')'']])"
proof -
  let ?tgt = "\<lambda>(trace :: string list) (query :: string). ([] :: string, 0::int)"
  let ?data = "''1'' @ [TAB] @ ''Ann'' @ [NEWLINE] @ ''2'' @ [TAB] @ ''Bob''"
  let ?src = "\<lparr>meta_columns = ([], 0), meta_pk = ([], 0), meta_identity = ([], 0),
      meta_computed = ([], 0), row_count = (''1500'', 0),
      page = (\<lambda>offset :: nat. if offset = 0 then (?data, 0::int) else (''Timeout'', 1))\<rparr>"
  let ?cols = "[\<lparr>name = ''ID'', data_type = ''int'', is_nullable = False, max_length = None,
       precision = Some ''10'', scale = Some ''0'', is_pk = True, is_identity = False\<rparr>,
      \<lparr>name = ''Name'', data_type = ''nvarchar'', is_nullable = False,
       max_length = Some ''50'', precision = None, scale = None, is_pk = False,
       is_identity = False\<rparr>]"
  let ?rows = "[[''1'', ''Ann''], [''2'', ''Bob'']]"
  let ?vals = "[''(1, '' @ [QUOTE] @ ''Ann'' @ [QUOTE] @ '')'',
                ''(2, '' @ [QUOTE] @ ''Bob'' @ [QUOTE] @ '')'']"
  let ?del = "''DELETE FROM '' @ pg_table ''Person'' ''P'' @ '';''"
  let ?ins = "pg_insert_query ''Person'' ''P'' ?cols ?vals"
  have p: "page ?src 0 = (?data, 0)" by simp
  have f: "snd (page ?src 1000) \<noteq> 0" by simp
  have r: "parse_rows_pg (length ?cols) ?data = ?rows" by code_simp
  have v: "pg_batch_values (\<lambda>v. False) ?cols ?rows = ?vals"
    by (simp add: pg_batch_values_def pg_values_def pg_value_def Let_def strip_def
        lstrip_def rstrip_def isspace_def lower_def lower_char_def py_int_def digits_value_def
        isdigit_char_def digit_val_def quoted_def val_escaped_pg_def replace_def
        upt_rec[of 0] upt_rec[of "Suc 0"] upt_rec[of 1] upt_rec[of 2])
  have l: "pg_insert_loop ?tgt ''Person'' ''P'' ?cols 0 0 [?del]
             (insert_batches ?vals) = (0, 2, [?del, ?ins])"
    by (simp add: insert_batches_two pg_insert_loop_Cons del: pg_insert_loop.simps(2))
  have "pg_batch_loop ?tgt ?src (\<lambda>v. False) ''Person'' ''P'' ?cols 1500 0 0 [?del]
        = pg_batch_loop ?tgt ?src (\<lambda>v. False) ''Person'' ''P'' ?cols 1500
            (0 + batch_size) 2 [?del, ?ins]"
    by (rule pg_batch_loop_step[OF _ p r _ v _ l]) simp_all
  also have "\<dots> = pg_batch_loop ?tgt ?src (\<lambda>v. False) ''Person'' ''P'' ?cols 1500
            1000 2 [?del, ?ins]"
    by (simp add: batch_size_def)
  also have "\<dots> = ((False, 2), [?del, ?ins])"
    using extraction_failure_aborts [of 1000 1500 ?src ?tgt "\<lambda>v. False" "''Person''" "''P''"
        ?cols 2 "[?del, ?ins]"] f
    by simp
  finally have "copy_data_mssql_to_pg_alternative ?tgt ?src (\<lambda>v. False) ''Person'' ''P''
      ?cols 1500 [] = ((False, 2), [?del, ?ins])"
    by (simp add: copy_data_mssql_to_pg_alternative_def run_sql_def)
  with f show ?thesis by simp
qed

lemma mysql_transfer_skips_on_equal_counts:
  assumes "table_exists_in (tgt trace
             (''SELECT COUNT(*) FROM INFORMATION_SCHEMA.TABLES WHERE TABLE_SCHEMA = '' @
              [QUOTE] @ db @ [QUOTE] @ '' AND TABLE_NAME = '' @
              [QUOTE] @ ts @ ''_'' @ tt @ [QUOTE] @ '';''))"
      and "get_table_definition_mssql (meta_columns src) (meta_pk src) (meta_identity src)
             (meta_computed src) \<noteq> []"
      and "snd (row_count src) = 0" and "first_count (fst (row_count src)) = n" and "0 < n"
      and "tgt (trace @ [''SELECT COUNT(*) FROM INFORMATION_SCHEMA.TABLES WHERE TABLE_SCHEMA = '' @
              [QUOTE] @ db @ [QUOTE] @ '' AND TABLE_NAME = '' @
              [QUOTE] @ ts @ ''_'' @ tt @ [QUOTE] @ '';''])
             (''SELECT COUNT(*) FROM '' @ mysql_table db ts tt @ '';'') = (check_result, 0)"
      and "first_count check_result = n"
  shows "copy_data_mssql_to_mysql tgt src float_ok db ts tt trace =
           Inr ((True, n),
                trace @ [''SELECT COUNT(*) FROM INFORMATION_SCHEMA.TABLES WHERE TABLE_SCHEMA = '' @
                           [QUOTE] @ db @ [QUOTE] @ '' AND TABLE_NAME = '' @
                           [QUOTE] @ ts @ ''_'' @ tt @ [QUOTE] @ '';'',
                         ''SELECT COUNT(*) FROM '' @ mysql_table db ts tt @ '';''])"
  using assms by (simp add: copy_data_mssql_to_mysql_def run_sql_def Let_def)

lemma pg_alternative_extends_trace:
  "\<exists>qs. snd (copy_data_mssql_to_pg_alternative tgt src float_ok ts tt columns total_rows trace)
          = trace @ qs"
proof -
  obtain qs where "snd (pg_batch_loop tgt src float_ok ts tt columns total_rows 0 0
      (trace @ [''DELETE FROM '' @ pg_table ts tt @ '';''])) =
      (trace @ [''DELETE FROM '' @ pg_table ts tt @ '';'']) @ qs \<and> list_all is_insert qs"
    using pg_batch_loop_trace by blast
  then show ?thesis
    by (auto simp: copy_data_mssql_to_pg_alternative_def run_sql_def)
qed

text \<open>
  Claim C1 fails on the PostgreSQL path. Whatever the target holds and answers,
  \<^verbatim>\<open>copy_data_mssql_to_pg\<close> sends \<open>DELETE FROM\<close> the target table as its first statement,
  before the row counts are read and compared. (The MySQL path compares first, see
  \<open>mysql_transfer_skips_on_equal_counts\<close>.)
\<close>

theorem pg_transfer_deletes_before_counting:
  "\<exists>rest. snd (copy_data_mssql_to_pg tgt src float_ok ts tt trace) =
            trace @ [''DELETE FROM '' @ pg_table ts tt @ '';''] @ rest"
proof -
  define del where "del = ''DELETE FROM '' @ pg_table ts tt @ '';''"
  define trunc where "trunc = ''TRUNCATE TABLE '' @ pg_table ts tt @ '' CASCADE;''"
  define count where "count = ''SELECT COUNT(*) FROM '' @ pg_table ts tt @ '';''"
  define t2 where
    "t2 = (if snd (tgt trace del) \<noteq> 0 then (trace @ [del]) @ [trunc] else trace @ [del])"
  define cols where "cols = get_table_definition_mssql (meta_columns src) (meta_pk src)
                 (meta_identity src) (meta_computed src)"
  define total where "total = first_count (fst (row_count src))"
  define pg_count where
    "pg_count = (if snd (tgt t2 count) = 0 then first_count (fst (tgt t2 count)) else 0)"
  let ?alt = "copy_data_mssql_to_pg_alternative tgt src float_ok ts tt cols total (t2 @ [count])"
  have body: "copy_data_mssql_to_pg tgt src float_ok ts tt trace =
      (if cols = [] then ((False, 0), t2)
       else if snd (row_count src) \<noteq> 0 then ((False, 0), t2)
       else if total = 0 then ((True, 0), t2)
       else if pg_count > 0 \<and> pg_count = total then ((True, pg_count), t2 @ [count])
       else ?alt)"
    by (simp add: copy_data_mssql_to_pg_def run_sql_def Let_def case_prod_beta del_def
        trunc_def count_def t2_def cols_def total_def pg_count_def)
  have t2: "\<exists>r. t2 = trace @ [del] @ r"
    by (simp add: t2_def)
  then obtain r where r: "t2 = trace @ [del] @ r" by blast
  obtain qs where qs: "snd ?alt = (t2 @ [count]) @ qs"
    using pg_alternative_extends_trace by blast
  have a: "t2 = trace @ [del] @ r" by (rule r)
  have b: "t2 @ [count] = trace @ [del] @ (r @ [count])" by (simp add: r)
  have c: "snd ?alt = trace @ [del] @ (r @ [count] @ qs)" using qs by (simp add: r)
  have "\<exists>rest. snd (copy_data_mssql_to_pg tgt src float_ok ts tt trace) = trace @ [del] @ rest"
  proof (cases "cols = [] \<or> snd (row_count src) \<noteq> 0 \<or> total = 0")
    case True
    then have "snd (copy_data_mssql_to_pg tgt src float_ok ts tt trace) = t2"
      by (auto simp: body)
    with a have "snd (copy_data_mssql_to_pg tgt src float_ok ts tt trace) = trace @ [del] @ r"
      by (simp only:)
    then show ?thesis by (rule exI[of _ r])
  next
    case False
    show ?thesis
    proof (cases "pg_count > 0 \<and> pg_count = total")
      case True
      with False have "snd (copy_data_mssql_to_pg tgt src float_ok ts tt trace) = t2 @ [count]"
        by (simp add: body)
      with b have "snd (copy_data_mssql_to_pg tgt src float_ok ts tt trace) =
          trace @ [del] @ (r @ [count])"
        by (simp only:)
      then show ?thesis by (rule exI[of _ "r @ [count]"])
    next
      case nomatch: False
      with False have "snd (copy_data_mssql_to_pg tgt src float_ok ts tt trace) = snd ?alt"
        by (auto simp: body)
      with c have "snd (copy_data_mssql_to_pg tgt src float_ok ts tt trace) =
          trace @ [del] @ (r @ [count] @ qs)"
        by (simp only:)
      then show ?thesis by (rule exI[of _ "r @ [count] @ qs"])
    qed
  qed
  then show ?thesis by (simp only: del_def)
qed

end
